theory Spec2Isabelle
  imports Complex_Main
begin

section \<open>The front-end monitor of \<^verbatim>\<open>src/index.ts\<close>\<close>

text \<open>
  The class \<^verbatim>\<open>FrontendMonitor\<close> is embedded by explicit state passing. The browser is
  the environment: what the code reads from it (\<^verbatim>\<open>performance.timing\<close>,
  \<^verbatim>\<open>window.location.href\<close>, \<^verbatim>\<open>Date.now()\<close>, the presence of
  \<^verbatim>\<open>PerformanceObserver\<close> and \<^verbatim>\<open>navigator.sendBeacon\<close>) is a field of the record
  \<open>Host\<close>, and what the code hands to it (observers, listeners, transmissions) is kept in
  the monitor's state or returned as a list of actions.

  Numbers: the marks of \<^verbatim>\<open>PerformanceTiming\<close> are integers (\<open>int\<close>). The
  high-resolution times are \<open>real\<close>: the code only tests them against 0 and rounds them
  with \<^verbatim>\<open>Math.round\<close>, which is exact on a double. The layout-shift scores and their
  running total are added, so they are IEEE 754 doubles (\<open>number\<close>) and \<^verbatim>\<open>+=\<close> rounds.
  A property that is \<^verbatim>\<open>undefined\<close> or \<^verbatim>\<open>null\<close> at run time is \<open>None\<close>.
\<close>

subsection \<open>JavaScript operators used by the code\<close>

text \<open>\<^verbatim>\<open>Math.round\<close>: the nearest integer, a tie going up.\<close>

definition Math_round :: "real \<Rightarrow> int" where
  "Math_round x = \<lfloor>x + 1 / 2\<rfloor>"

text \<open>\<^verbatim>\<open>a || b\<close> on strings: \<^verbatim>\<open>undefined\<close> and the empty string are falsy.\<close>

definition truthy_string :: "string option \<Rightarrow> bool" where
  "truthy_string a = (case a of None \<Rightarrow> False | Some s \<Rightarrow> s \<noteq> [])"

definition or_string :: "string option \<Rightarrow> string option \<Rightarrow> string option" where
  "or_string a b = (if truthy_string a then a else b)"

definition or_default :: "string option \<Rightarrow> string \<Rightarrow> string" where
  "or_default a d = (case a of None \<Rightarrow> d | Some s \<Rightarrow> if s = [] then d else s)"

text \<open>\<^verbatim>\<open>a || 0\<close> on numbers: \<^verbatim>\<open>undefined\<close> and \<open>0\<close> are falsy.\<close>

definition or_number :: "int option \<Rightarrow> int \<Rightarrow> int" where
  "or_number a d = (case a of None \<Rightarrow> d | Some n \<Rightarrow> if n = 0 then d else n)"

text \<open>A value inside a template literal: \<^verbatim>\<open>undefined\<close> prints as that word.\<close>

definition template_string :: "string option \<Rightarrow> string" where
  "template_string a = (case a of None \<Rightarrow> ''undefined'' | Some s \<Rightarrow> s)"

text \<open>
  A JavaScript number that takes part in an addition: a finite double, given by its value,
  an infinity or NaN. The two zeros are one value here: they differ only under division
  and \<^verbatim>\<open>Object.is\<close>, which the code does not use.
\<close>

datatype number = Finite real | PosInfinity | NegInfinity | NaN

text \<open>
  Rounding to the nearest double, a tie going to the even significand. A positive real
  \<open>x\<close> is rounded to a multiple of \<open>2 powi ulp_exponent x\<close>: 53 significant bits in the normal
  range, the fixed step \<open>2 powi (- 1074)\<close> below it. A result of \<open>2 ^ 1024\<close> or more is an
  infinity.
\<close>

definition round_half_even :: "real \<Rightarrow> int" where
  "round_half_even y =
     (let f = \<lfloor>y\<rfloor>
      in if y - of_int f < 1 / 2 then f
         else if 1 / 2 < y - of_int f then f + 1
         else if even f then f else f + 1)"

definition ulp_exponent :: "real \<Rightarrow> int" where
  "ulp_exponent x = max \<lfloor>log 2 x\<rfloor> (- 1022) - 52"

definition round_magnitude :: "real \<Rightarrow> real" where
  "round_magnitude x =
     of_int (round_half_even (x / 2 powi ulp_exponent x)) * 2 powi ulp_exponent x"

definition binary64 :: "real \<Rightarrow> number" where
  "binary64 x =
     (if x = 0 then Finite 0
      else if 2 ^ 1024 \<le> round_magnitude \<bar>x\<bar> then
        (if 0 < x then PosInfinity else NegInfinity)
      else Finite (sgn x * round_magnitude \<bar>x\<bar>))"

text \<open>\<^verbatim>\<open>a + b\<close> on numbers: the exact sum of two finite doubles, rounded.\<close>

fun js_add :: "number \<Rightarrow> number \<Rightarrow> number" where
  "js_add (Finite a) (Finite b) = binary64 (a + b)"
| "js_add NaN _ = NaN"
| "js_add _ NaN = NaN"
| "js_add PosInfinity NegInfinity = NaN"
| "js_add NegInfinity PosInfinity = NaN"
| "js_add PosInfinity _ = PosInfinity"
| "js_add _ PosInfinity = PosInfinity"
| "js_add NegInfinity _ = NegInfinity"
| "js_add _ NegInfinity = NegInfinity"

text \<open>\<^verbatim>\<open>a <= b\<close> on numbers: false when either side is NaN.\<close>

fun number_le :: "number \<Rightarrow> number \<Rightarrow> bool" where
  "number_le (Finite a) (Finite b) = (a \<le> b)"
| "number_le NaN _ = False"
| "number_le _ NaN = False"
| "number_le NegInfinity _ = True"
| "number_le _ PosInfinity = True"
| "number_le PosInfinity _ = False"
| "number_le _ NegInfinity = False"

subsection \<open>Report data\<close>

record PerformanceData =
  dns :: int
  tcp :: int
  ttfb :: int
  domParse :: int
  resources :: int
  domReady :: int
  interactive :: int
  load :: int
  fp :: "int option"
  fcp :: "int option"
  lcp :: "int option"
  fid :: "int option"
  cls :: "number option"

datatype ErrorType = js | resource | promise

record ErrorData =
  message :: "string option"
  filename :: string
  lineno :: int
  colno :: int
  stack :: "string option"
  type :: ErrorType
  timestamp :: int

datatype ReportData = PerformanceReport PerformanceData | ErrorReport ErrorData

subsection \<open>What the browser delivers\<close>

record PerformanceTiming =
  navigationStart :: int
  domainLookupStart :: int
  domainLookupEnd :: int
  connectStart :: int
  connectEnd :: int
  requestStart :: int
  responseStart :: int
  domInteractive :: int
  domContentLoadedEventEnd :: int
  domComplete :: int
  loadEventStart :: int
  loadEventEnd :: int

record PaintEntry =
  name :: string
  startTime :: real

record LargestContentfulPaintEntry =
  renderTime :: real
  loadTime :: real

record LayoutShiftEntry =
  "value" :: number
  hadRecentInput :: bool

text \<open>The thrown value of an error event, or the reason of a rejection.\<close>

record ErrorObject =
  err_message :: "string option"
  err_stack :: "string option"

record Element =
  tagName :: string
  src :: "string option"
  href :: "string option"

datatype EventTarget = NullTarget | WindowTarget | ElementTarget Element

text \<open>
  An event on the \<^verbatim>\<open>error\<close> channel of the window. A script error is an
  \<^verbatim>\<open>ErrorEvent\<close> whose target is the window; the failure of an element to load is a plain
  event whose target is the element and whose \<^verbatim>\<open>message\<close>, \<^verbatim>\<open>filename\<close>,
  \<^verbatim>\<open>lineno\<close>, \<^verbatim>\<open>colno\<close> and \<^verbatim>\<open>error\<close> are undefined.
\<close>

record ErrorEvent =
  ev_message :: "string option"
  ev_filename :: "string option"
  ev_lineno :: "int option"
  ev_colno :: "int option"
  ev_error :: "ErrorObject option"
  ev_target :: EventTarget

record PromiseRejectionEvent =
  reason :: "ErrorObject option"

datatype Event =
    Init
  | Load
  | Error ErrorEvent
  | UnhandledRejection PromiseRejectionEvent
  | PaintDelivery "PaintEntry list"
  | LargestContentfulPaintDelivery "LargestContentfulPaintEntry list"
  | LayoutShiftDelivery "LayoutShiftEntry list"

subsection \<open>The host platform\<close>

datatype StreamKind = paint | largest_contentful_paint | layout_shift

text \<open>
  \<^verbatim>\<open>new PerformanceObserver(cb).observe({ type, buffered: true })\<close> is code of the
  browser. What it does with an entry type is a parameter of the host: it registers the
  observer, it ignores the request (an entry type the browser does not support), or it
  throws a \<^verbatim>\<open>TypeError\<close> (a browser whose \<^verbatim>\<open>observe\<close> knows \<^verbatim>\<open>entryTypes\<close> only).
\<close>

datatype ObserveOutcome = Registered | Ignored | ThrowsTypeError

record Host =
  hasPerformanceObserver :: bool
  observe :: "StreamKind \<Rightarrow> ObserveOutcome"
  hasSendBeacon :: bool
  timing :: PerformanceTiming
  location_href :: string
  Date_now :: int

datatype Transmission =
    SendBeacon string ReportData
  | XhrPost string "(string \<times> string) list" ReportData

text \<open>
  What a handler does, in order: a call of \<^verbatim>\<open>getBasicTiming\<close> (with its result) and a
  transmission of \<^verbatim>\<open>report\<close>.
\<close>

datatype Action = GetBasicTiming PerformanceData | Transmit Transmission

subsection \<open>The monitor\<close>

datatype Listener =
    JsErrorListener
  | ResourceErrorListener
  | UnhandledRejectionListener
  | LoadListener

text \<open>
  The fields of the class, and the observers and window listeners it has installed, in the
  order of installation. The field \<^verbatim>\<open>performanceTiming\<close> is a reference to the live
  object \<^verbatim>\<open>performance.timing\<close>: it is read from the host at each call.
\<close>

record FrontendMonitor =
  reportUrl :: string
  isMonitoring :: bool
  clsValue :: number
  observers :: "StreamKind list"
  listeners :: "Listener list"

definition new_FrontendMonitor :: "string \<Rightarrow> FrontendMonitor" where
  "new_FrontendMonitor url =
     \<lparr>reportUrl = url, isMonitoring = False, clsValue = Finite 0, observers = [],
      listeners = []\<rparr>"

definition report :: "Host \<Rightarrow> FrontendMonitor \<Rightarrow> ReportData \<Rightarrow> Action list" where
  "report h m d =
     (if hasSendBeacon h then [Transmit (SendBeacon (reportUrl m) d)]
      else [Transmit (XhrPost (reportUrl m) [(''Content-Type'', ''application/json'')] d)])"

definition getBasicTiming :: "PerformanceTiming \<Rightarrow> PerformanceData" where
  "getBasicTiming t =
     \<lparr>dns = domainLookupEnd t - domainLookupStart t,
      tcp = connectEnd t - connectStart t,
      ttfb = responseStart t - requestStart t,
      domParse = domComplete t - domInteractive t,
      resources = loadEventStart t - domContentLoadedEventEnd t,
      domReady = domContentLoadedEventEnd t - navigationStart t,
      interactive = domInteractive t - navigationStart t,
      load = loadEventEnd t - navigationStart t,
      fp = None, fcp = None, lcp = None, fid = None, cls = None\<rparr>"

subsection \<open>setupPerformanceObserver: the three callbacks\<close>

text \<open>
  The paint callback: one report for each entry named \<^verbatim>\<open>first-paint\<close>, then one for each
  entry named \<^verbatim>\<open>first-contentful-paint\<close>. Each report spreads a fresh
  \<^verbatim>\<open>getBasicTiming()\<close> and sets one optional field.
\<close>

definition getEntriesByName :: "string \<Rightarrow> PaintEntry list \<Rightarrow> PaintEntry list" where
  "getEntriesByName n es = filter (\<lambda>e. name e = n) es"

fun report_fp :: "Host \<Rightarrow> FrontendMonitor \<Rightarrow> PaintEntry list \<Rightarrow> Action list" where
  "report_fp h m [] = []"
| "report_fp h m (e # es) =
     GetBasicTiming (getBasicTiming (timing h))
     # report h m (PerformanceReport
          ((getBasicTiming (timing h))\<lparr>fp := Some (Math_round (startTime e))\<rparr>))
     @ report_fp h m es"

fun report_fcp :: "Host \<Rightarrow> FrontendMonitor \<Rightarrow> PaintEntry list \<Rightarrow> Action list" where
  "report_fcp h m [] = []"
| "report_fcp h m (e # es) =
     GetBasicTiming (getBasicTiming (timing h))
     # report h m (PerformanceReport
          ((getBasicTiming (timing h))\<lparr>fcp := Some (Math_round (startTime e))\<rparr>))
     @ report_fcp h m es"

definition paint_callback :: "Host \<Rightarrow> FrontendMonitor \<Rightarrow> PaintEntry list \<Rightarrow> Action list" where
  "paint_callback h m es =
     report_fp h m (getEntriesByName ''first-paint'' es)
     @ report_fcp h m (getEntriesByName ''first-contentful-paint'' es)"

text \<open>
  The largest-contentful-paint callback: nothing on an empty batch; otherwise the last
  entry, \<^verbatim>\<open>renderTime || loadTime\<close> (a render time of 0 is falsy), rounded.
\<close>

definition lcp_callback ::
  "Host \<Rightarrow> FrontendMonitor \<Rightarrow> LargestContentfulPaintEntry list \<Rightarrow> Action list" where
  "lcp_callback h m entries =
     (if length entries > 0 then
        (let lastEntry = entries ! (length entries - 1);
             lcp_time = (if renderTime lastEntry \<noteq> 0 then renderTime lastEntry
                         else loadTime lastEntry)
         in GetBasicTiming (getBasicTiming (timing h))
            # report h m (PerformanceReport
                 ((getBasicTiming (timing h))\<lparr>lcp := Some (Math_round lcp_time)\<rparr>)))
      else [])"

text \<open>
  The layout-shift callback: the loop adds the value of each entry without recent input
  to \<^verbatim>\<open>clsValue\<close>; after the loop one report carries the total.
\<close>

fun add_shifts :: "LayoutShiftEntry list \<Rightarrow> number \<Rightarrow> number" where
  "add_shifts [] acc = acc"
| "add_shifts (entry # entries) acc =
     add_shifts entries (if \<not> hadRecentInput entry then js_add acc (value entry) else acc)"

definition cls_callback ::
  "Host \<Rightarrow> FrontendMonitor \<Rightarrow> LayoutShiftEntry list \<Rightarrow> Action list \<times> FrontendMonitor" where
  "cls_callback h m entries =
     (let m' = m\<lparr>clsValue := add_shifts entries (clsValue m)\<rparr>
      in (GetBasicTiming (getBasicTiming (timing h))
          # report h m' (PerformanceReport
               ((getBasicTiming (timing h))\<lparr>cls := Some (clsValue m')\<rparr>)),
          m'))"

subsection \<open>captureErrors: the three listeners\<close>

definition js_error_listener :: "Host \<Rightarrow> FrontendMonitor \<Rightarrow> ErrorEvent \<Rightarrow> Action list" where
  "js_error_listener h m event =
     report h m (ErrorReport
       \<lparr>message = ev_message event,
        filename = or_default (ev_filename event) (location_href h),
        lineno = or_number (ev_lineno event) 0,
        colno = or_number (ev_colno event) 0,
        stack = (case ev_error event of None \<Rightarrow> None | Some e \<Rightarrow> err_stack e),
        type = js,
        timestamp = Date_now h\<rparr>)"

definition is_resource_target :: "EventTarget \<Rightarrow> bool" where
  "is_resource_target target =
     (case target of
        ElementTarget el \<Rightarrow>
          tagName el = ''LINK'' \<or> tagName el = ''SCRIPT'' \<or> tagName el = ''IMG''
      | _ \<Rightarrow> False)"

definition resource_error_listener ::
  "Host \<Rightarrow> FrontendMonitor \<Rightarrow> ErrorEvent \<Rightarrow> Action list" where
  "resource_error_listener h m event =
     (case ev_target event of
        ElementTarget el \<Rightarrow>
          (if tagName el = ''LINK'' \<or> tagName el = ''SCRIPT'' \<or> tagName el = ''IMG'' then
             report h m (ErrorReport
               \<lparr>message =
                  Some (''Resource load error: '' @ template_string (or_string (src el) (href el))),
                filename = or_default (or_string (src el) (href el)) [],
                lineno = 0,
                colno = 0,
                stack = None,
                type = resource,
                timestamp = Date_now h\<rparr>)
           else [])
      | _ \<Rightarrow> [])"

definition rejection_listener ::
  "Host \<Rightarrow> FrontendMonitor \<Rightarrow> PromiseRejectionEvent \<Rightarrow> Action list" where
  "rejection_listener h m event =
     report h m (ErrorReport
       \<lparr>message =
          Some (or_default (case reason event of None \<Rightarrow> None | Some r \<Rightarrow> err_message r)
                  ''Unhandled promise rejection''),
        filename = location_href h,
        lineno = 0,
        colno = 0,
        stack = (case reason event of None \<Rightarrow> None | Some r \<Rightarrow> err_stack r),
        type = promise,
        timestamp = Date_now h\<rparr>)"

definition reportPerformance :: "Host \<Rightarrow> FrontendMonitor \<Rightarrow> Action list" where
  "reportPerformance h m =
     GetBasicTiming (getBasicTiming (timing h))
     # report h m (PerformanceReport (getBasicTiming (timing h)))"

subsection \<open>init\<close>

text \<open>
  A call either returns or throws; the fields it has assigned and the observers it has
  registered before the throw stay.
\<close>

datatype Completion = Returned | Threw

definition new_observer ::
  "Host \<Rightarrow> StreamKind \<Rightarrow> FrontendMonitor \<Rightarrow> Completion \<times> FrontendMonitor" where
  "new_observer h k m =
     (case observe h k of
        Registered \<Rightarrow> (Returned, m\<lparr>observers := observers m @ [k]\<rparr>)
      | Ignored \<Rightarrow> (Returned, m)
      | ThrowsTypeError \<Rightarrow> (Threw, m))"

definition setupPerformanceObserver ::
  "Host \<Rightarrow> FrontendMonitor \<Rightarrow> Completion \<times> FrontendMonitor" where
  "setupPerformanceObserver h m =
     (if \<not> hasPerformanceObserver h then (Returned, m)
      else
        (case new_observer h paint m of
           (Threw, m1) \<Rightarrow> (Threw, m1)
         | (Returned, m1) \<Rightarrow>
             (case new_observer h largest_contentful_paint m1 of
                (Threw, m2) \<Rightarrow> (Threw, m2)
              | (Returned, m2) \<Rightarrow> new_observer h layout_shift m2)))"

definition captureErrors :: "FrontendMonitor \<Rightarrow> FrontendMonitor" where
  "captureErrors m =
     m\<lparr>listeners :=
         listeners m @ [JsErrorListener, ResourceErrorListener, UnhandledRejectionListener]\<rparr>"

definition init :: "Host \<Rightarrow> FrontendMonitor \<Rightarrow> Completion \<times> FrontendMonitor" where
  "init h m =
     (if isMonitoring m then (Returned, m)
      else
        (case setupPerformanceObserver h (m\<lparr>isMonitoring := True\<rparr>) of
           (Threw, m1) \<Rightarrow> (Threw, m1)
         | (Returned, m1) \<Rightarrow>
             (let m2 = captureErrors m1
              in (Returned, m2\<lparr>listeners := listeners m2 @ [LoadListener]\<rparr>))))"

subsection \<open>The page's events\<close>

text \<open>
  The window runs the listeners of an event's channel in the order of installation; the
  listeners do not change the monitor's fields.
\<close>

fun run_listener :: "Host \<Rightarrow> FrontendMonitor \<Rightarrow> Event \<Rightarrow> Listener \<Rightarrow> Action list" where
  "run_listener h m (Error event) JsErrorListener = js_error_listener h m event"
| "run_listener h m (Error event) ResourceErrorListener = resource_error_listener h m event"
| "run_listener h m (UnhandledRejection event) UnhandledRejectionListener =
     rejection_listener h m event"
| "run_listener h m Load LoadListener = reportPerformance h m"
| "run_listener h m _ _ = []"

fun dispatch :: "Host \<Rightarrow> FrontendMonitor \<Rightarrow> Event \<Rightarrow> Listener list \<Rightarrow> Action list" where
  "dispatch h m ev [] = []"
| "dispatch h m ev (l # ls) = run_listener h m ev l @ dispatch h m ev ls"

text \<open>A delivery runs the callback of each observer registered for its stream.\<close>

fun run_observer ::
  "Host \<Rightarrow> Event \<Rightarrow> StreamKind \<Rightarrow> FrontendMonitor \<Rightarrow> Action list \<times> FrontendMonitor" where
  "run_observer h (PaintDelivery es) paint m = (paint_callback h m es, m)"
| "run_observer h (LargestContentfulPaintDelivery es) largest_contentful_paint m =
     (lcp_callback h m es, m)"
| "run_observer h (LayoutShiftDelivery es) layout_shift m = cls_callback h m es"
| "run_observer h _ _ m = ([], m)"

fun deliver ::
  "Host \<Rightarrow> Event \<Rightarrow> StreamKind list \<Rightarrow> FrontendMonitor \<Rightarrow> Action list \<times> FrontendMonitor" where
  "deliver h ev [] m = ([], m)"
| "deliver h ev (k # ks) m =
     (case run_observer h ev k m of
        (a1, m1) \<Rightarrow> (case deliver h ev ks m1 of (a2, m2) \<Rightarrow> (a1 @ a2, m2)))"

fun step :: "Host \<Rightarrow> Event \<Rightarrow> FrontendMonitor \<Rightarrow> Action list \<times> FrontendMonitor" where
  "step h Init m = ([], snd (init h m))"
| "step h Load m = (dispatch h m Load (listeners m), m)"
| "step h (Error event) m = (dispatch h m (Error event) (listeners m), m)"
| "step h (UnhandledRejection event) m =
     (dispatch h m (UnhandledRejection event) (listeners m), m)"
| "step h (PaintDelivery es) m = deliver h (PaintDelivery es) (observers m) m"
| "step h (LargestContentfulPaintDelivery es) m =
     deliver h (LargestContentfulPaintDelivery es) (observers m) m"
| "step h (LayoutShiftDelivery es) m = deliver h (LayoutShiftDelivery es) (observers m) m"

text \<open>
  A run of the page: each event comes with the host as it is at that moment
  (\<^verbatim>\<open>performance.timing\<close> fills in as the page loads).
\<close>

fun run ::
  "(Host \<times> Event) list \<Rightarrow> FrontendMonitor \<Rightarrow> Action list \<times> FrontendMonitor" where
  "run [] m = ([], m)"
| "run ((h, ev) # rest) m =
     (case step h ev m of
        (a1, m1) \<Rightarrow> (case run rest m1 of (a2, m2) \<Rightarrow> (a1 @ a2, m2)))"

subsection \<open>Observations on a run\<close>

text \<open>The reports and the calls of \<^verbatim>\<open>getBasicTiming\<close> among a list of actions.\<close>

fun reports_of :: "Action list \<Rightarrow> ReportData list" where
  "reports_of [] = []"
| "reports_of (GetBasicTiming _ # as) = reports_of as"
| "reports_of (Transmit (SendBeacon _ d) # as) = d # reports_of as"
| "reports_of (Transmit (XhrPost _ _ d) # as) = d # reports_of as"

fun basic_timing_calls :: "Action list \<Rightarrow> nat" where
  "basic_timing_calls [] = 0"
| "basic_timing_calls (GetBasicTiming _ # as) = Suc (basic_timing_calls as)"
| "basic_timing_calls (Transmit _ # as) = basic_timing_calls as"

fun is_performance :: "ReportData \<Rightarrow> bool" where
  "is_performance (PerformanceReport _) = True"
| "is_performance (ErrorReport _) = False"

fun error_type_of :: "ReportData \<Rightarrow> ErrorType option" where
  "error_type_of (PerformanceReport _) = None"
| "error_type_of (ErrorReport d) = Some (type d)"

fun errors_of :: "ReportData list \<Rightarrow> ErrorData list" where
  "errors_of [] = []"
| "errors_of (PerformanceReport _ # ds) = errors_of ds"
| "errors_of (ErrorReport d # ds) = d # errors_of ds"

text \<open>
  A list of actions is balanced when it has one call of \<^verbatim>\<open>getBasicTiming\<close> for each
  performance report.
\<close>

definition balanced :: "Action list \<Rightarrow> bool" where
  "balanced as = (basic_timing_calls as = length (filter is_performance (reports_of as)))"

text \<open>
  In the specification's words: the values that a delivery sums into the layout-instability
  total are those of its entries that are not flagged as following recent input, in the
  order of delivery. An event of any other kind has none.
\<close>

fun unflagged_values :: "Event \<Rightarrow> number list" where
  "unflagged_values (LayoutShiftDelivery es) =
     map value (filter (\<lambda>e. \<not> hadRecentInput e) es)"
| "unflagged_values _ = []"

text \<open>The layout-shift scores a browser delivers are not negative.\<close>

fun nonneg_shifts :: "Event \<Rightarrow> bool" where
  "nonneg_shifts (LayoutShiftDelivery es) = list_all (\<lambda>e. number_le (Finite 0) (value e)) es"
| "nonneg_shifts _ = True"

text \<open>
  A total that the additions of scores that are not negative can reach from 0: a double
  that is not negative, or the positive infinity. A real is a double when rounding leaves
  it as it is.
\<close>

fun valid_total :: "number \<Rightarrow> bool" where
  "valid_total (Finite a) = (0 \<le> a \<and> binary64 a = Finite a)"
| "valid_total PosInfinity = True"
| "valid_total _ = False"

text \<open>What \<^verbatim>\<open>captureErrors\<close> and the last line of \<^verbatim>\<open>init\<close> install on the window.\<close>

definition installed_listeners :: "Listener list" where
  "installed_listeners =
     [JsErrorListener, ResourceErrorListener, UnhandledRejectionListener, LoadListener]"

subsection \<open>Example inputs\<close>

text \<open>
  A timing snapshot with the marks of the first end-to-end scenario (domain lookup from
  100 to 112; the connection is reused, so connect start and end coincide), and the same
  page before its load event, when the later marks are still 0.
\<close>

definition scenario_timing :: PerformanceTiming where
  "scenario_timing =
     \<lparr>navigationStart = 90, domainLookupStart = 100, domainLookupEnd = 112,
      connectStart = 112, connectEnd = 112, requestStart = 115, responseStart = 435,
      domInteractive = 940, domContentLoadedEventEnd = 1290, domComplete = 1400,
      loadEventStart = 1440, loadEventEnd = 1460\<rparr>"

definition modern_host :: Host where
  "modern_host =
     \<lparr>hasPerformanceObserver = True, observe = (\<lambda>k. Registered), hasSendBeacon = True,
      timing = scenario_timing, location_href = ''https://example.com/page'',
      Date_now = 1686147200000\<rparr>"

definition loading_host :: Host where
  "loading_host =
     modern_host\<lparr>timing := scenario_timing\<lparr>domContentLoadedEventEnd := 0, domComplete := 0,
       loadEventStart := 0, loadEventEnd := 0\<rparr>\<rparr>"

text \<open>
  Hosts that differ in the observation capability: no \<^verbatim>\<open>PerformanceObserver\<close> at all; the
  layout-shift entry type ignored; an \<^verbatim>\<open>observe\<close> that throws on the option
  \<^verbatim>\<open>type\<close>; an \<^verbatim>\<open>observe\<close> that throws for the paint stream alone.
\<close>

definition no_observer_host :: Host where
  "no_observer_host = modern_host\<lparr>hasPerformanceObserver := False\<rparr>"

definition no_layout_shift_host :: Host where
  "no_layout_shift_host =
     modern_host\<lparr>observe := (\<lambda>k. if k = layout_shift then Ignored else Registered)\<rparr>"

definition entryTypes_only_host :: Host where
  "entryTypes_only_host = modern_host\<lparr>observe := (\<lambda>k. ThrowsTypeError)\<rparr>"

definition paint_refusing_host :: Host where
  "paint_refusing_host =
     modern_host\<lparr>observe := (\<lambda>k. if k = paint then ThrowsTypeError else Registered)\<rparr>"

text \<open>
  The layout-shift deliveries of the second end-to-end scenario; a decimal literal stands
  for the double nearest to it.
\<close>

definition scenario_shifts :: "LayoutShiftEntry list" where
  "scenario_shifts =
     [\<lparr>value = binary64 (5 / 100), hadRecentInput = False\<rparr>,
      \<lparr>value = binary64 (10 / 100), hadRecentInput = True\<rparr>,
      \<lparr>value = binary64 (3 / 100), hadRecentInput = False\<rparr>]"

text \<open>
  A script error; the image of the third end-to-end scenario failing to load; an image
  that has a \<^verbatim>\<open>srcset\<close> and no \<^verbatim>\<open>src\<close> attribute failing to load (its \<^verbatim>\<open>src\<close> property
  is the empty string); a rejected promise.
\<close>

definition script_error :: ErrorEvent where
  "script_error =
     \<lparr>ev_message = Some ''Uncaught TypeError: x is not a function'',
      ev_filename = Some ''https://example.com/app.js'', ev_lineno = Some 42,
      ev_colno = Some 15,
      ev_error = Some \<lparr>err_message = Some ''x is not a function'',
                        err_stack = Some ''TypeError: x is not a function at app.js:42:15''\<rparr>,
      ev_target = WindowTarget\<rparr>"

definition img_failure :: ErrorEvent where
  "img_failure =
     \<lparr>ev_message = None, ev_filename = None, ev_lineno = None, ev_colno = None,
      ev_error = None,
      ev_target = ElementTarget \<lparr>tagName = ''IMG'', src = Some ''https://cdn.x/a.png'',
                                 href = None\<rparr>\<rparr>"

definition srcset_img_failure :: ErrorEvent where
  "srcset_img_failure =
     \<lparr>ev_message = None, ev_filename = None, ev_lineno = None, ev_colno = None,
      ev_error = None,
      ev_target = ElementTarget \<lparr>tagName = ''IMG'', src = Some [], href = None\<rparr>\<rparr>"

definition rejection :: PromiseRejectionEvent where
  "rejection = \<lparr>reason = Some \<lparr>err_message = Some ''timeout'', err_stack = None\<rparr>\<rparr>"

section \<open>Auxiliary facts\<close>

lemma reports_of_report [simp]: "reports_of (report h m d) = [d]"
  by (simp add: report_def)

lemma basic_timing_calls_report [simp]: "basic_timing_calls (report h m d) = 0"
  by (simp add: report_def)

lemma reports_of_append [simp]: "reports_of (xs @ ys) = reports_of xs @ reports_of ys"
  by (induction xs rule: reports_of.induct) simp_all

lemma basic_timing_calls_append [simp]:
  "basic_timing_calls (xs @ ys) = basic_timing_calls xs + basic_timing_calls ys"
  by (induction xs rule: basic_timing_calls.induct) simp_all

text \<open>Rounding: what is needed of it to follow a sum of doubles that are not negative.\<close>

lemma round_half_even_of_int [simp]: "round_half_even (of_int n) = n"
  by (simp add: round_half_even_def)

lemma round_half_even_cases:
  "round_half_even y = \<lfloor>y\<rfloor> \<or> round_half_even y = \<lfloor>y\<rfloor> + 1"
  by (simp add: round_half_even_def Let_def)

lemma round_half_even_mono:
  assumes "a \<le> b"
  shows "round_half_even a \<le> round_half_even b"
proof (cases "\<lfloor>a\<rfloor> = \<lfloor>b\<rfloor>")
  case True
  then show ?thesis
    using assms by (auto simp add: round_half_even_def Let_def)
next
  case False
  then have "\<lfloor>a\<rfloor> + 1 \<le> \<lfloor>b\<rfloor>"
    using assms floor_mono [of a b] by linarith
  moreover have "round_half_even a \<le> \<lfloor>a\<rfloor> + 1" "\<lfloor>b\<rfloor> \<le> round_half_even b"
    using round_half_even_cases [of a] round_half_even_cases [of b] by linarith+
  ultimately show ?thesis by linarith
qed

lemma round_half_even_le: "z \<le> of_int n \<Longrightarrow> round_half_even z \<le> n"
  using round_half_even_mono [of z "of_int n"] by simp

lemma round_half_even_ge: "of_int n \<le> z \<Longrightarrow> n \<le> round_half_even z"
  using round_half_even_mono [of "of_int n" z] by simp

lemma floor_log2_bounds:
  assumes "0 < x"
  shows "2 powi \<lfloor>log 2 x\<rfloor> \<le> x" and "x < 2 powi (\<lfloor>log 2 x\<rfloor> + 1)"
proof -
  have p: "(2::real) powr of_int k = 2 powi k" for k
    by (rule powr_real_of_int') simp_all
  have "(2::real) powr of_int \<lfloor>log 2 x\<rfloor> \<le> x \<and> x < 2 powr of_int (\<lfloor>log 2 x\<rfloor> + 1)"
    using assms floor_log_eq_powr_iff [of x 2 "\<lfloor>log 2 x\<rfloor>"] by simp
  then show "2 powi \<lfloor>log 2 x\<rfloor> \<le> x" and "x < 2 powi (\<lfloor>log 2 x\<rfloor> + 1)"
    unfolding p by simp_all
qed

lemma floor_log2_between:
  assumes "2 powi k \<le> x" and "x < 2 powi (k + 1)"
  shows "\<lfloor>log 2 x\<rfloor> = k"
proof -
  have "0 < (2::real) powi k"
    by simp
  then have x: "0 < x"
    using assms(1) by linarith
  have p: "(2::real) powr of_int k = 2 powi k" for k
    by (rule powr_real_of_int') simp_all
  have "(2::real) powr of_int k \<le> x \<and> x < (2::real) powr of_int (k + 1)"
    unfolding p using assms by simp
  then show ?thesis
    using x floor_log_eq_powr_iff [of x 2 k] by simp
qed

lemma floor_log2_mono: "0 < x \<Longrightarrow> x \<le> y \<Longrightarrow> \<lfloor>log 2 x\<rfloor> \<le> \<lfloor>log 2 y\<rfloor>"
  by (intro floor_mono) simp

lemma powi2_mono: "i \<le> j \<Longrightarrow> (2::real) powi i \<le> 2 powi j"
  by (rule power_int_increasing) simp_all

lemma floor_log2_less:
  assumes "0 < x" and "x < 2 powi (k + 1)"
  shows "\<lfloor>log 2 x\<rfloor> \<le> k"
proof (rule ccontr)
  assume "\<not> \<lfloor>log 2 x\<rfloor> \<le> k"
  then have "k + 1 \<le> \<lfloor>log 2 x\<rfloor>" by simp
  then have "(2::real) powi (k + 1) \<le> 2 powi \<lfloor>log 2 x\<rfloor>" by (rule powi2_mono)
  also have "\<dots> \<le> x" using floor_log2_bounds(1) [OF assms(1)] .
  finally show False using assms(2) by simp
qed

lemma floor_log2_powi [simp]: "\<lfloor>log 2 (2 powi k)\<rfloor> = k"
  by (rule floor_log2_between) (simp_all add: power_int_add)

lemma ulp_exponent_mono: "0 < x \<Longrightarrow> x \<le> y \<Longrightarrow> ulp_exponent x \<le> ulp_exponent y"
  using floor_log2_mono [of x y] by (simp add: ulp_exponent_def)

lemma round_magnitude_zero [simp]: "round_magnitude 0 = 0"
  using round_half_even_of_int [of 0] by (simp add: round_magnitude_def)

lemma round_magnitude_nonneg: "0 \<le> x \<Longrightarrow> 0 \<le> round_magnitude x"
proof -
  assume "0 \<le> x"
  then have "of_int 0 \<le> x / 2 powi ulp_exponent x" by simp
  then have "0 \<le> round_half_even (x / 2 powi ulp_exponent x)"
    by (rule round_half_even_ge)
  then show ?thesis by (simp add: round_magnitude_def)
qed

lemma round_magnitude_multiple:
  assumes "y = of_int n * 2 powi d" and "ulp_exponent y \<le> d"
  shows "round_magnitude y = y"
proof -
  define E where "E = ulp_exponent y"
  define c :: real where "c = 2 powi E"
  have c: "0 < c" by (simp add: c_def)
  have "(2::real) powi d = 2 powi (d - E) * c"
    by (simp add: c_def flip: power_int_add)
  moreover have "(2::real) powi (d - E) = of_int (2 ^ nat (d - E))"
    using assms(2) by (simp add: power_int_def E_def)
  ultimately have y: "y = of_int (n * 2 ^ nat (d - E)) * c"
    using assms(1) by simp
  have "y / c = of_int (n * 2 ^ nat (d - E))"
    using c by (subst y) simp
  then have "round_half_even (y / c) = n * 2 ^ nat (d - E)"
    by (simp only: round_half_even_of_int)
  then have "round_magnitude y = of_int (n * 2 ^ nat (d - E)) * c"
    by (simp add: round_magnitude_def c_def E_def)
  then show ?thesis
    using y by simp
qed

lemma scaled_upper:
  assumes "0 < x"
  shows "x / 2 powi ulp_exponent x < of_int (2 ^ 53)"
proof -
  let ?E = "ulp_exponent x"
  have "\<lfloor>log 2 x\<rfloor> + 1 \<le> ?E + 53" by (simp add: ulp_exponent_def)
  then have "(2::real) powi (\<lfloor>log 2 x\<rfloor> + 1) \<le> 2 powi (?E + 53)" by (rule powi2_mono)
  then have "x < 2 powi (?E + 53)"
    using floor_log2_bounds(2) [OF assms] by linarith
  also have "\<dots> = 2 ^ 53 * 2 powi ?E"
    by (simp add: power_int_add)
  finally show ?thesis by (simp add: pos_divide_less_eq)
qed

lemma round_magnitude_upper:
  assumes "0 < x"
  shows "round_magnitude x \<le> 2 powi (ulp_exponent x + 53)"
proof -
  have "round_half_even (x / 2 powi ulp_exponent x) \<le> 2 ^ 53"
    using scaled_upper [OF assms] by (intro round_half_even_le) simp
  then have "of_int (round_half_even (x / 2 powi ulp_exponent x)) \<le> (2::real) ^ 53"
    by (metis of_int_le_iff of_int_numeral of_int_power)
  then have "round_magnitude x \<le> 2 ^ 53 * 2 powi ulp_exponent x"
    by (simp add: round_magnitude_def)
  then show ?thesis by (simp add: power_int_add)
qed

lemma round_magnitude_lower:
  assumes "0 < x" and "- 1022 \<le> \<lfloor>log 2 x\<rfloor>"
  shows "2 powi (ulp_exponent x + 52) \<le> round_magnitude x"
proof -
  let ?E = "ulp_exponent x"
  have E: "?E + 52 = \<lfloor>log 2 x\<rfloor>"
    using assms(2) by (simp add: ulp_exponent_def)
  have "2 powi (?E + 52) \<le> x"
    using floor_log2_bounds(1) [OF assms(1)] by (simp only: E)
  then have "2 ^ 52 * 2 powi ?E \<le> x"
    by (simp add: power_int_add)
  then have "of_int (2 ^ 52) \<le> x / 2 powi ?E"
    by (simp add: pos_le_divide_eq)
  then have "2 ^ 52 \<le> round_half_even (x / 2 powi ?E)"
    by (rule round_half_even_ge)
  then have "(2::real) ^ 52 \<le> of_int (round_half_even (x / 2 powi ?E))"
    by (metis of_int_le_iff of_int_numeral of_int_power)
  then have "2 ^ 52 * 2 powi ?E \<le> round_magnitude x"
    by (simp add: round_magnitude_def)
  then show ?thesis by (simp add: power_int_add)
qed

lemma round_magnitude_mono:
  assumes "0 < x" and "x \<le> y"
  shows "round_magnitude x \<le> round_magnitude y"
proof (cases "ulp_exponent x = ulp_exponent y")
  case True
  have "x / 2 powi ulp_exponent y \<le> y / 2 powi ulp_exponent y"
    using assms(2) by (simp add: divide_right_mono)
  then have "round_half_even (x / 2 powi ulp_exponent y)
      \<le> round_half_even (y / 2 powi ulp_exponent y)"
    by (rule round_half_even_mono)
  then show ?thesis
    by (simp add: round_magnitude_def True)
next
  case False
  have y: "0 < y" using assms by linarith
  have lt: "ulp_exponent x < ulp_exponent y"
    using False ulp_exponent_mono [OF assms] by linarith
  then have "- 1022 \<le> \<lfloor>log 2 y\<rfloor>"
    by (simp add: ulp_exponent_def split: if_splits) linarith
  then have "2 powi (ulp_exponent y + 52) \<le> round_magnitude y"
    by (rule round_magnitude_lower [OF y])
  moreover have "(2::real) powi (ulp_exponent x + 53) \<le> 2 powi (ulp_exponent y + 52)"
    using lt by (intro powi2_mono) simp
  ultimately show ?thesis
    using round_magnitude_upper [OF assms(1)] by linarith
qed

lemma round_magnitude_idem:
  assumes "0 < x"
  shows "round_magnitude (round_magnitude x) = round_magnitude x"
proof -
  let ?E = "ulp_exponent x"
  let ?q = "round_half_even (x / 2 powi ?E)"
  let ?r = "round_magnitude x"
  have r: "?r = of_int ?q * 2 powi ?E"
    by (simp add: round_magnitude_def)
  have q0: "0 \<le> ?q"
    using assms by (intro round_half_even_ge) simp
  have q1: "?q \<le> 2 ^ 53"
    using scaled_upper [OF assms] by (intro round_half_even_le) simp
  have E: "- 1022 \<le> ?E + 52"
    by (simp add: ulp_exponent_def)
  consider "?q = 0" | "0 < ?q" "?q < 2 ^ 53" | "?q = 2 ^ 53"
    using q0 q1 by linarith
  then show ?thesis
  proof cases
    case 1
    then show ?thesis by (simp add: r)
  next
    case 2
    have rpos: "0 < ?r"
      using 2(1) by (simp add: r)
    have "of_int ?q < (2::real) ^ 53"
      using 2(2) by (metis of_int_less_iff of_int_numeral of_int_power)
    then have "?r < 2 ^ 53 * 2 powi ?E"
      by (simp add: r)
    then have "?r < 2 powi ((?E + 52) + 1)"
      by (simp add: power_int_add)
    then have "\<lfloor>log 2 ?r\<rfloor> \<le> ?E + 52"
      by (rule floor_log2_less [OF rpos])
    then have "ulp_exponent ?r \<le> ?E"
      using E by (simp add: ulp_exponent_def)
    then show ?thesis
      by (rule round_magnitude_multiple [OF r])
  next
    case 3
    have r': "?r = of_int (2 ^ 52) * 2 powi (?E + 1)"
      by (simp add: r 3 power_int_add)
    have "?r = 2 powi (?E + 53)"
      by (simp add: r 3 power_int_add)
    then have "ulp_exponent ?r = max (?E + 53) (- 1022) - 52"
      by (simp add: ulp_exponent_def)
    then have "ulp_exponent ?r \<le> ?E + 1"
      using E by simp
    then show ?thesis
      by (rule round_magnitude_multiple [OF r'])
  qed
qed

lemma number_le_trans: "number_le a b \<Longrightarrow> number_le b c \<Longrightarrow> number_le a c"
  by (cases a; cases b; cases c) simp_all

lemma number_le_refl_valid: "valid_total a \<Longrightarrow> number_le a a"
  by (cases a) simp_all

lemma binary64_nonneg_cases:
  assumes "0 \<le> x"
  shows "binary64 x =
           (if 2 ^ 1024 \<le> round_magnitude x then PosInfinity else Finite (round_magnitude x))"
  using assms by (cases "x = 0") (simp_all add: binary64_def)

lemma binary64_mono:
  assumes "0 \<le> x" and "x \<le> y"
  shows "number_le (binary64 x) (binary64 y)"
proof (cases "x = 0")
  case True
  have "0 \<le> round_magnitude y"
    using assms by (intro round_magnitude_nonneg) linarith
  then show ?thesis
    using assms True by (simp add: binary64_nonneg_cases)
next
  case False
  then have "round_magnitude x \<le> round_magnitude y"
    using assms by (intro round_magnitude_mono) simp_all
  moreover have "0 \<le> y" using assms by linarith
  ultimately show ?thesis
    using assms(1) by (simp add: binary64_nonneg_cases)
qed

lemma binary64_fixed:
  assumes "0 \<le> x" and "binary64 x = Finite r"
  shows "0 \<le> r \<and> binary64 r = Finite r"
proof (cases "x = 0")
  case True
  then show ?thesis using assms by (simp add: binary64_def)
next
  case False
  then have x: "0 < x" using assms(1) by simp
  have r: "r = round_magnitude x" and small: "\<not> 2 ^ 1024 \<le> round_magnitude x"
    using assms by (simp_all add: binary64_nonneg_cases split: if_splits)
  have r0: "0 \<le> r"
    using assms(1) by (simp add: r round_magnitude_nonneg)
  have "round_magnitude r = r"
    by (simp add: r round_magnitude_idem [OF x])
  then show ?thesis
    using r0 small r by (simp add: binary64_nonneg_cases)
qed

lemma binary64_valid: "0 \<le> x \<Longrightarrow> valid_total (binary64 x)"
proof -
  assume x: "0 \<le> x"
  show ?thesis
  proof (cases "binary64 x")
    case (Finite r)
    then show ?thesis using binary64_fixed [OF x Finite] by simp
  next
    case PosInfinity
    then show ?thesis by simp
  next
    case NegInfinity
    then show ?thesis using x by (simp add: binary64_nonneg_cases split: if_splits)
  next
    case NaN
    then show ?thesis using x by (simp add: binary64_nonneg_cases split: if_splits)
  qed
qed

lemma js_add_nonneg:
  assumes "valid_total acc" and "number_le (Finite 0) v"
  shows "number_le acc (js_add acc v) \<and> valid_total (js_add acc v)"
proof (cases acc)
  case (Finite a)
  then have a: "0 \<le> a" "binary64 a = Finite a"
    using assms(1) by simp_all
  show ?thesis
  proof (cases v)
    case (Finite b)
    then have b: "0 \<le> b" using assms(2) by simp
    have "number_le (binary64 a) (binary64 (a + b))"
      using a(1) b by (intro binary64_mono) simp_all
    moreover have "valid_total (binary64 (a + b))"
      using a(1) b by (intro binary64_valid) simp
    ultimately show ?thesis
      using \<open>acc = Finite a\<close> Finite a(2) by simp
  qed (use assms Finite in simp_all)
next
  case PosInfinity
  then show ?thesis using assms(2) by (cases v) simp_all
qed (use assms in simp_all)

lemma binary64_between:
  assumes "2 powi k \<le> x" and "x < 2 powi (k + 1)" and "- 1022 \<le> k" and "k \<le> 1022"
  shows "binary64 x = Finite (of_int (round_half_even (x / 2 powi (k - 52))) * 2 powi (k - 52))"
proof -
  have "0 < (2::real) powi k" by simp
  then have x: "0 < x" using assms(1) by linarith
  have k: "\<lfloor>log 2 x\<rfloor> = k"
    by (rule floor_log2_between [OF assms(1,2)])
  then have E: "ulp_exponent x = k - 52"
    using assms(3) by (simp add: ulp_exponent_def)
  have "ulp_exponent x + 53 = k + 1"
    by (simp add: E)
  then have "round_magnitude x \<le> 2 powi (k + 1)"
    using round_magnitude_upper [OF x] by (simp only:)
  also have "\<dots> \<le> 2 powi 1023"
    using assms(4) by (intro powi2_mono) simp
  also have "\<dots> < (2::real) ^ 1024"
    by simp
  finally have "\<not> 2 ^ 1024 \<le> round_magnitude x" by simp
  then show ?thesis
    using x by (simp add: binary64_nonneg_cases round_magnitude_def E)
qed

lemma binary64_literals:
  "binary64 (5 / 100) = Finite (3602879701896397 / 2 ^ 56)"
  "binary64 (3 / 100) = Finite (1080863910568919 / 2 ^ 55)"
  "binary64 (8 / 100) = Finite (5764607523034235 / 2 ^ 56)"
  "binary64 (10 / 100) = Finite (3602879701896397 / 2 ^ 55)"
  "binary64 (1 / 10) = Finite (3602879701896397 / 2 ^ 55)"
  "binary64 (2 / 10) = Finite (3602879701896397 / 2 ^ 54)"
  "binary64 (3 / 10) = Finite (5404319552844595 / 2 ^ 54)"
  by (subst binary64_between [of "-5"] binary64_between [of "-6"] binary64_between [of "-4"]
        binary64_between [of "-3"] binary64_between [of "-2"];
      simp add: power_int_minus round_half_even_def Let_def field_simps)+

lemma js_add_literals:
  "js_add (Finite 0) (binary64 (5 / 100)) = binary64 (5 / 100)"
  "js_add (binary64 (5 / 100)) (binary64 (3 / 100)) = binary64 (8 / 100)"
  "js_add (Finite 0) (binary64 (1 / 10)) = binary64 (1 / 10)"
  "js_add (binary64 (1 / 10)) (binary64 (2 / 10)) = Finite (5404319552844596 / 2 ^ 54)"
  unfolding binary64_literals js_add.simps
  by (subst binary64_between [of "-5"] binary64_between [of "-6"] binary64_between [of "-4"]
        binary64_between [of "-3"] binary64_between [of "-2"];
      simp add: power_int_minus round_half_even_def Let_def field_simps)+

lemma binary64_zero: "binary64 0 = Finite 0"
  by (simp add: binary64_def)

lemma binary64_nonneg: "0 \<le> x \<Longrightarrow> number_le (Finite 0) (binary64 x)"
  using binary64_mono [of 0 x] by (simp add: binary64_zero)

text \<open>The loop of the layout-shift callback.\<close>

lemma add_shifts_foldl:
  "add_shifts es acc = foldl js_add acc (map value (filter (\<lambda>e. \<not> hadRecentInput e) es))"
  by (induction es arbitrary: acc) simp_all

lemma add_shifts_scenario: "add_shifts scenario_shifts (Finite 0) = binary64 (8 / 100)"
  by (simp only: scenario_shifts_def add_shifts.simps LayoutShiftEntry.select_convs
      simp_thms if_True if_False js_add_literals)

lemma add_shifts_tenths:
  "add_shifts [\<lparr>value = binary64 (1 / 10), hadRecentInput = False\<rparr>,
               \<lparr>value = binary64 (2 / 10), hadRecentInput = False\<rparr>] (Finite 0)
     = Finite (5404319552844596 / 2 ^ 54)"
  by (simp only: add_shifts.simps LayoutShiftEntry.select_convs simp_thms if_True if_False
      js_add_literals)

lemma nonneg_scenario_shifts: "list_all (\<lambda>e. number_le (Finite 0) (value e)) scenario_shifts"
  by (simp add: scenario_shifts_def binary64_nonneg)

lemma add_shifts_flagged: "list_all hadRecentInput es \<Longrightarrow> add_shifts es acc = acc"
  by (induction es arbitrary: acc) simp_all

lemma add_shifts_mono:
  assumes "valid_total acc" and "list_all (\<lambda>e. number_le (Finite 0) (value e)) es"
  shows "number_le acc (add_shifts es acc) \<and> valid_total (add_shifts es acc)"
  using assms
proof (induction es arbitrary: acc)
  case Nil
  then show ?case by (simp add: number_le_refl_valid)
next
  case (Cons e es)
  show ?case
  proof (cases "hadRecentInput e")
    case True
    then show ?thesis using Cons.IH [of acc] Cons.prems by simp
  next
    case False
    have s: "number_le acc (js_add acc (value e)) \<and> valid_total (js_add acc (value e))"
      using Cons.prems by (intro js_add_nonneg) simp_all
    then have "number_le (js_add acc (value e)) (add_shifts es (js_add acc (value e)))
        \<and> valid_total (add_shifts es (js_add acc (value e)))"
      using Cons.prems by (intro Cons.IH) simp_all
    then show ?thesis
      using s False number_le_trans by auto
  qed
qed

lemma deliver_lcp_empty:
  "deliver h (LargestContentfulPaintDelivery []) ks m = ([], m)"
proof (induction ks)
  case Nil
  then show ?case by simp
next
  case (Cons k ks)
  then show ?case by (cases k) (simp_all add: lcp_callback_def)
qed

lemma new_observer_fields [simp]:
  "clsValue (snd (new_observer h k m)) = clsValue m"
  "isMonitoring (snd (new_observer h k m)) = isMonitoring m"
  "listeners (snd (new_observer h k m)) = listeners m"
  "reportUrl (snd (new_observer h k m)) = reportUrl m"
  by (simp_all add: new_observer_def split: ObserveOutcome.split)

lemma setupPerformanceObserver_fields [simp]:
  "clsValue (snd (setupPerformanceObserver h m)) = clsValue m"
  "isMonitoring (snd (setupPerformanceObserver h m)) = isMonitoring m"
  "listeners (snd (setupPerformanceObserver h m)) = listeners m"
  "reportUrl (snd (setupPerformanceObserver h m)) = reportUrl m"
  by (simp_all add: setupPerformanceObserver_def new_observer_def
      split: ObserveOutcome.split)

lemma init_monitoring: "isMonitoring m \<Longrightarrow> init h m = (Returned, m)"
  by (simp add: init_def)

lemma init_clsValue [simp]: "clsValue (snd (init h m)) = clsValue m"
proof (cases "isMonitoring m")
  case True
  then show ?thesis by (simp add: init_def)
next
  case False
  obtain c m1 where s: "setupPerformanceObserver h (m\<lparr>isMonitoring := True\<rparr>) = (c, m1)"
    by (cases "setupPerformanceObserver h (m\<lparr>isMonitoring := True\<rparr>)")
  have "clsValue m1 = clsValue m"
    using setupPerformanceObserver_fields(1) [of h "m\<lparr>isMonitoring := True\<rparr>"] s by simp
  with False s show ?thesis
    by (cases c) (simp_all add: init_def captureErrors_def Let_def)
qed

lemma init_isMonitoring [simp]: "isMonitoring (snd (init h m))"
proof (cases "isMonitoring m")
  case True
  then show ?thesis by (simp add: init_def)
next
  case False
  obtain c m1 where s: "setupPerformanceObserver h (m\<lparr>isMonitoring := True\<rparr>) = (c, m1)"
    by (cases "setupPerformanceObserver h (m\<lparr>isMonitoring := True\<rparr>)")
  have "isMonitoring m1"
    using setupPerformanceObserver_fields(2) [of h "m\<lparr>isMonitoring := True\<rparr>"] s by simp
  with False s show ?thesis
    by (cases c) (simp_all add: init_def captureErrors_def Let_def)
qed

lemma run_observer_clsValue:
  "clsValue (snd (run_observer h ev k m)) =
     (if k = layout_shift then foldl js_add (clsValue m) (unflagged_values ev)
      else clsValue m)"
  by (cases "(h, ev, k, m)" rule: run_observer.cases)
     (simp_all add: cls_callback_def Let_def add_shifts_foldl)

lemma run_observer_mono:
  assumes "valid_total (clsValue m)" and "nonneg_shifts ev"
  shows "number_le (clsValue m) (clsValue (snd (run_observer h ev k m)))
         \<and> valid_total (clsValue (snd (run_observer h ev k m)))"
  using assms
  by (cases "(h, ev, k, m)" rule: run_observer.cases)
     (simp_all add: cls_callback_def Let_def add_shifts_mono number_le_refl_valid)

lemma run_observer_fields [simp]:
  "observers (snd (run_observer h ev k m)) = observers m"
  "listeners (snd (run_observer h ev k m)) = listeners m"
  "isMonitoring (snd (run_observer h ev k m)) = isMonitoring m"
  "reportUrl (snd (run_observer h ev k m)) = reportUrl m"
  by (cases "(h, ev, k, m)" rule: run_observer.cases; simp add: cls_callback_def Let_def)+

lemma deliver_Cons_snd:
  "snd (deliver h ev (k # ks) m) = snd (deliver h ev ks (snd (run_observer h ev k m)))"
  by (simp add: split_beta)

lemma deliver_Cons_fst:
  "fst (deliver h ev (k # ks) m) =
     fst (run_observer h ev k m) @ fst (deliver h ev ks (snd (run_observer h ev k m)))"
  by (simp add: split_beta)

lemma deliver_observers [simp]: "observers (snd (deliver h ev ks m)) = observers m"
  by (induction ks arbitrary: m) (simp_all add: deliver_Cons_snd del: deliver.simps(2))

lemma deliver_listeners [simp]: "listeners (snd (deliver h ev ks m)) = listeners m"
  by (induction ks arbitrary: m) (simp_all add: deliver_Cons_snd del: deliver.simps(2))

lemma deliver_isMonitoring [simp]: "isMonitoring (snd (deliver h ev ks m)) = isMonitoring m"
  by (induction ks arbitrary: m) (simp_all add: deliver_Cons_snd del: deliver.simps(2))

lemma deliver_clsValue_none:
  "layout_shift \<notin> set ks \<Longrightarrow> clsValue (snd (deliver h ev ks m)) = clsValue m"
  by (induction ks arbitrary: m)
     (auto simp add: deliver_Cons_snd run_observer_clsValue simp del: deliver.simps(2))

lemma deliver_clsValue_one:
  "count_list ks layout_shift = 1 \<Longrightarrow>
     clsValue (snd (deliver h ev ks m)) = foldl js_add (clsValue m) (unflagged_values ev)"
proof (induction ks arbitrary: m)
  case Nil
  then show ?case by simp
next
  case (Cons k ks)
  show ?case
  proof (cases "k = layout_shift")
    case True
    then have "layout_shift \<notin> set ks"
      using Cons.prems by (simp add: count_list_0_iff)
    then show ?thesis
      using True
      by (simp add: deliver_Cons_snd deliver_clsValue_none run_observer_clsValue
          del: deliver.simps(2))
  next
    case False
    then show ?thesis
      using Cons.IH [of "snd (run_observer h ev k m)"] Cons.prems
      by (simp add: deliver_Cons_snd run_observer_clsValue del: deliver.simps(2))
  qed
qed

lemma deliver_mono:
  assumes "valid_total (clsValue m)" and "nonneg_shifts ev"
  shows "number_le (clsValue m) (clsValue (snd (deliver h ev ks m)))
         \<and> valid_total (clsValue (snd (deliver h ev ks m)))"
  using assms
proof (induction ks arbitrary: m)
  case Nil
  then show ?case by (simp add: number_le_refl_valid)
next
  case (Cons k ks)
  have a: "number_le (clsValue m) (clsValue (snd (run_observer h ev k m)))
      \<and> valid_total (clsValue (snd (run_observer h ev k m)))"
    using Cons.prems by (rule run_observer_mono)
  then have "number_le (clsValue (snd (run_observer h ev k m)))
        (clsValue (snd (deliver h ev ks (snd (run_observer h ev k m)))))
      \<and> valid_total (clsValue (snd (deliver h ev ks (snd (run_observer h ev k m)))))"
    using Cons.prems(2) by (intro Cons.IH) simp_all
  then show ?case
    using a number_le_trans by (auto simp add: deliver_Cons_snd simp del: deliver.simps(2))
qed

lemma step_fields:
  "isMonitoring m \<Longrightarrow> observers (snd (step h ev m)) = observers m"
  "isMonitoring m \<Longrightarrow> listeners (snd (step h ev m)) = listeners m"
  "isMonitoring m \<Longrightarrow> isMonitoring (snd (step h ev m))"
  by (cases ev; simp add: init_monitoring)+

lemma step_clsValue:
  "count_list (observers m) layout_shift = 1 \<Longrightarrow>
     clsValue (snd (step h ev m)) = foldl js_add (clsValue m) (unflagged_values ev)"
  by (cases ev) (simp_all add: deliver_clsValue_one)

lemma step_mono:
  assumes "valid_total (clsValue m)" and "nonneg_shifts ev"
  shows "number_le (clsValue m) (clsValue (snd (step h ev m)))
         \<and> valid_total (clsValue (snd (step h ev m)))"
  using assms by (cases ev) (simp_all add: deliver_mono number_le_refl_valid)

lemma run_Cons_snd: "snd (run ((h, ev) # tr) m) = snd (run tr (snd (step h ev m)))"
  by (simp add: split_beta)

lemma run_Cons_fst:
  "fst (run ((h, ev) # tr) m) = fst (step h ev m) @ fst (run tr (snd (step h ev m)))"
  by (simp add: split_beta)

lemma run_append_snd: "snd (run (tr1 @ tr2) m) = snd (run tr2 (snd (run tr1 m)))"
proof (induction tr1 arbitrary: m)
  case Nil
  then show ?case by simp
next
  case (Cons x tr1)
  then show ?case by (cases x) (simp add: run_Cons_snd del: run.simps(2))
qed

lemma run_fields:
  "isMonitoring m \<Longrightarrow>
     observers (snd (run tr m)) = observers m \<and> listeners (snd (run tr m)) = listeners m
     \<and> isMonitoring (snd (run tr m))"
proof (induction tr arbitrary: m)
  case Nil
  then show ?case by simp
next
  case (Cons x tr)
  obtain h ev where x: "x = (h, ev)" by (cases x)
  show ?case
    using Cons.IH [of "snd (step h ev m)"] Cons.prems step_fields [of m h ev]
    by (simp add: x run_Cons_snd del: run.simps(2))
qed

lemma run_clsValue:
  "isMonitoring m \<Longrightarrow> count_list (observers m) layout_shift = 1 \<Longrightarrow>
     clsValue (snd (run tr m)) =
       foldl js_add (clsValue m) (concat (map (\<lambda>x. unflagged_values (snd x)) tr))"
proof (induction tr arbitrary: m)
  case Nil
  then show ?case by simp
next
  case (Cons x tr)
  obtain h ev where x: "x = (h, ev)" by (cases x)
  show ?case
    using Cons.IH [of "snd (step h ev m)"] Cons.prems step_fields [of m h ev]
      step_clsValue [of m h ev]
    by (simp add: x run_Cons_snd del: run.simps(2))
qed

lemma run_mono:
  assumes "valid_total (clsValue m)" and "list_all (\<lambda>x. nonneg_shifts (snd x)) tr"
  shows "number_le (clsValue m) (clsValue (snd (run tr m)))
         \<and> valid_total (clsValue (snd (run tr m)))"
  using assms
proof (induction tr arbitrary: m)
  case Nil
  then show ?case by (simp add: number_le_refl_valid)
next
  case (Cons x tr)
  obtain h ev where x: "x = (h, ev)" by (cases x)
  have a: "number_le (clsValue m) (clsValue (snd (step h ev m)))
      \<and> valid_total (clsValue (snd (step h ev m)))"
    using Cons.prems x by (intro step_mono) simp_all
  then have "number_le (clsValue (snd (step h ev m))) (clsValue (snd (run tr (snd (step h ev m)))))
      \<and> valid_total (clsValue (snd (run tr (snd (step h ev m)))))"
    using Cons.prems(2) by (intro Cons.IH) simp_all
  then show ?case
    using a number_le_trans by (auto simp add: x run_Cons_snd simp del: run.simps(2))
qed

lemma balanced_Nil [simp]: "balanced []"
  by (simp add: balanced_def)

lemma balanced_append: "balanced xs \<Longrightarrow> balanced ys \<Longrightarrow> balanced (xs @ ys)"
  by (simp add: balanced_def)

lemma balanced_report_fp: "balanced (report_fp h m es)"
  by (induction es) (simp_all add: balanced_def)

lemma balanced_report_fcp: "balanced (report_fcp h m es)"
  by (induction es) (simp_all add: balanced_def)

lemma balanced_paint_callback: "balanced (paint_callback h m es)"
  by (simp add: paint_callback_def balanced_append balanced_report_fp balanced_report_fcp)

lemma balanced_lcp_callback: "balanced (lcp_callback h m es)"
  by (simp add: lcp_callback_def balanced_def Let_def)

lemma balanced_cls_callback: "balanced (fst (cls_callback h m es))"
  by (simp add: cls_callback_def balanced_def Let_def)

lemma balanced_reportPerformance: "balanced (reportPerformance h m)"
  by (simp add: reportPerformance_def balanced_def)

lemma balanced_js_error_listener: "balanced (js_error_listener h m e)"
  by (simp add: js_error_listener_def balanced_def)

lemma balanced_resource_error_listener: "balanced (resource_error_listener h m e)"
  by (simp add: resource_error_listener_def balanced_def split: EventTarget.split)

lemma balanced_rejection_listener: "balanced (rejection_listener h m e)"
  by (simp add: rejection_listener_def balanced_def)

lemma balanced_run_listener: "balanced (run_listener h m ev l)"
  by (cases "(h, m, ev, l)" rule: run_listener.cases)
     (simp_all add: balanced_js_error_listener balanced_resource_error_listener
        balanced_rejection_listener balanced_reportPerformance)

lemma balanced_dispatch: "balanced (dispatch h m ev ls)"
  by (induction ls) (simp_all add: balanced_append balanced_run_listener)

lemma balanced_run_observer: "balanced (fst (run_observer h ev k m))"
  by (cases "(h, ev, k, m)" rule: run_observer.cases)
     (simp_all add: balanced_paint_callback balanced_lcp_callback balanced_cls_callback)

lemma balanced_deliver: "balanced (fst (deliver h ev ks m))"
  by (induction ks arbitrary: m)
     (simp_all add: deliver_Cons_fst balanced_append balanced_run_observer
        del: deliver.simps(2))

lemma balanced_step: "balanced (fst (step h ev m))"
  by (cases ev) (simp_all add: balanced_dispatch balanced_deliver)

lemma balanced_run: "balanced (fst (run tr m))"
proof (induction tr arbitrary: m)
  case Nil
  then show ?case by simp
next
  case (Cons x tr)
  obtain h ev where x: "x = (h, ev)" by (cases x)
  show ?case
    using Cons.IH [of "snd (step h ev m)"] balanced_step [of h ev m]
    by (simp add: x run_Cons_fst balanced_append del: run.simps(2))
qed

lemma dispatch_Load_calls:
  "basic_timing_calls (dispatch h m Load ls) = count_list ls LoadListener"
proof (induction ls)
  case Nil
  then show ?case by simp
next
  case (Cons l ls)
  then show ?case by (cases l) (simp_all add: reportPerformance_def)
qed

lemma init_new_returned:
  assumes "init h (new_FrontendMonitor url) = (Returned, m)"
  shows "listeners m =
           [JsErrorListener, ResourceErrorListener, UnhandledRejectionListener, LoadListener]"
    and "isMonitoring m" and "reportUrl m = url" and "clsValue m = Finite 0"
proof -
  let ?m0 = "(new_FrontendMonitor url)\<lparr>isMonitoring := True\<rparr>"
  obtain c m1 where s: "setupPerformanceObserver h ?m0 = (c, m1)"
    by (cases "setupPerformanceObserver h ?m0")
  have c: "c = Returned"
    using assms s by (cases c) (simp_all add: init_def new_FrontendMonitor_def)
  have m: "m = (captureErrors m1)\<lparr>listeners := listeners (captureErrors m1) @ [LoadListener]\<rparr>"
    using assms s c by (simp add: init_def new_FrontendMonitor_def Let_def)
  have m1: "m1 = snd (setupPerformanceObserver h ?m0)"
    using s by simp
  have f: "listeners m1 = []" "isMonitoring m1" "reportUrl m1 = url" "clsValue m1 = Finite 0"
    unfolding m1 by (simp_all add: new_FrontendMonitor_def)
  show "listeners m =
           [JsErrorListener, ResourceErrorListener, UnhandledRejectionListener, LoadListener]"
    and "isMonitoring m" and "reportUrl m = url" and "clsValue m = Finite 0"
    using m f by (simp_all add: captureErrors_def)
qed

lemma modern_host_fields:
  "hasPerformanceObserver modern_host" "observe modern_host k = Registered"
  "hasSendBeacon modern_host" "timing modern_host = scenario_timing"
  "location_href modern_host = ''https://example.com/page''"
  "Date_now modern_host = 1686147200000"
  by (simp_all add: modern_host_def)

lemma init_modern_host:
  "init modern_host (new_FrontendMonitor url) =
     (Returned,
      \<lparr>reportUrl = url, isMonitoring = True, clsValue = Finite 0,
       observers = [paint, largest_contentful_paint, layout_shift],
       listeners =
         [JsErrorListener, ResourceErrorListener, UnhandledRejectionListener, LoadListener]\<rparr>)"
  by (simp add: init_def setupPerformanceObserver_def new_observer_def captureErrors_def
      new_FrontendMonitor_def modern_host_def Let_def)

lemmas model_defs =
  init_def setupPerformanceObserver_def new_observer_def captureErrors_def
  new_FrontendMonitor_def paint_callback_def getEntriesByName_def lcp_callback_def
  cls_callback_def reportPerformance_def report_def js_error_listener_def
  resource_error_listener_def rejection_listener_def is_resource_target_def
  or_string_def or_default_def or_number_def truthy_string_def template_string_def Let_def

lemmas example_defs =
  modern_host_def loading_host_def entryTypes_only_host_def paint_refusing_host_def
  no_layout_shift_host_def no_observer_host_def script_error_def img_failure_def
  srcset_img_failure_def rejection_def scenario_shifts_def

lemma resource_listener_types:
  "map error_type_of (reports_of (resource_error_listener h m ev)) =
     (if is_resource_target (ev_target ev) then [Some resource] else [])"
  by (simp add: resource_error_listener_def is_resource_target_def split: EventTarget.split)

lemma js_listener_types:
  "map error_type_of (reports_of (js_error_listener h m ev)) = [Some js]"
  by (simp add: js_error_listener_def)

lemma rejection_listener_types:
  "map error_type_of (reports_of (rejection_listener h m ev)) = [Some promise]"
  by (simp add: rejection_listener_def)

text \<open>What a largest-contentful-paint delivery reaches, and the observers of a new monitor.\<close>

lemma deliver_lcp:
  "deliver h (LargestContentfulPaintDelivery es) ks m =
     (concat (map (\<lambda>k. if k = largest_contentful_paint then lcp_callback h m es else []) ks),
      m)"
proof (induction ks)
  case Nil
  then show ?case by simp
next
  case (Cons k ks)
  then show ?case by (cases k) simp_all
qed

lemma init_returned_observers:
  assumes "init h (new_FrontendMonitor url) = (Returned, m)" and "hasPerformanceObserver h"
  shows "observers m =
           filter (\<lambda>k. observe h k = Registered) [paint, largest_contentful_paint, layout_shift]"
  using assms
  by (cases "observe h paint"; cases "observe h largest_contentful_paint";
      cases "observe h layout_shift")
     (auto simp add: init_def setupPerformanceObserver_def new_observer_def captureErrors_def
        new_FrontendMonitor_def Let_def)

section \<open>Properties\<close>

subsection \<open>The timing reader\<close>

text \<open>
  C1. For every navigation timing snapshot, \<^verbatim>\<open>getBasicTiming\<close> gives the eight required
  metrics as the differences of marks the specification lists (a difference of zero
  included, the snapshot being arbitrary) and sets no optional field; the report of the
  load handler carries this record. With \<^verbatim>\<open>domainLookupStart\<close> = 100 and
  \<^verbatim>\<open>domainLookupEnd\<close> = 112 the metric \<^verbatim>\<open>dns\<close> is 12.
\<close>

theorem getBasicTiming_differences:
  "dns (getBasicTiming t) = domainLookupEnd t - domainLookupStart t
   \<and> tcp (getBasicTiming t) = connectEnd t - connectStart t
   \<and> ttfb (getBasicTiming t) = responseStart t - requestStart t
   \<and> domParse (getBasicTiming t) = domComplete t - domInteractive t
   \<and> resources (getBasicTiming t) = loadEventStart t - domContentLoadedEventEnd t
   \<and> domReady (getBasicTiming t) = domContentLoadedEventEnd t - navigationStart t
   \<and> interactive (getBasicTiming t) = domInteractive t - navigationStart t
   \<and> load (getBasicTiming t) = loadEventEnd t - navigationStart t
   \<and> fp (getBasicTiming t) = None \<and> fcp (getBasicTiming t) = None
   \<and> lcp (getBasicTiming t) = None \<and> fid (getBasicTiming t) = None
   \<and> cls (getBasicTiming t) = None
   \<and> reports_of (reportPerformance h m) = [PerformanceReport (getBasicTiming (timing h))]
   \<and> dns (getBasicTiming (t\<lparr>domainLookupStart := 100, domainLookupEnd := 112\<rparr>)) = 12"
  by (simp add: getBasicTiming_def reportPerformance_def report_def)

theorem getBasicTiming_differences_witness:
  "dns (getBasicTiming scenario_timing) = 12
   \<and> tcp (getBasicTiming scenario_timing) = 0
   \<and> load (getBasicTiming scenario_timing) = 1370
   \<and> reports_of (reportPerformance modern_host (new_FrontendMonitor ''https://c.example/r''))
       = [PerformanceReport (getBasicTiming scenario_timing)]"
  using getBasicTiming_differences [of scenario_timing modern_host
      "new_FrontendMonitor ''https://c.example/r''"]
  by (simp add: scenario_timing_def modern_host_def)

subsection \<open>The layout-instability accumulator\<close>

text \<open>
  C2. The loop of the layout-shift callback sums into the accumulator the values of
  exactly the unflagged entries, in the order of delivery, with the addition of the code
  (the sum of two doubles, rounded to a double); flagged entries leave it as it is. Over a
  whole run of a monitor that has one layout-shift observer, \<^verbatim>\<open>clsValue\<close> is its starting
  value with the unflagged values of the deliveries summed into it: no other event changes
  it and nothing resets it. With scores that are not negative, the accumulator never
  decreases: within one batch, and from any point of the lifetime of a monitor to any
  later one. The deliveries 0.05 (unflagged), 0.10 (flagged), 0.03 (unflagged) give a
  reported \<^verbatim>\<open>cls\<close> of 0.08; the scores 0.1 and 0.2 leave the total at the double
  0.30000000000000004, which is not the double of 0.3.
\<close>

theorem cls_accumulator_monotone_exact:
  "add_shifts es acc = foldl js_add acc (map value (filter (\<lambda>e. \<not> hadRecentInput e) es))
   \<and> add_shifts es acc = add_shifts (filter (\<lambda>e. \<not> hadRecentInput e) es) acc
   \<and> (valid_total acc \<and> list_all (\<lambda>e. number_le (Finite 0) (value e)) es \<longrightarrow>
        number_le acc (add_shifts es acc))
   \<and> (isMonitoring m \<and> count_list (observers m) layout_shift = 1 \<longrightarrow>
        clsValue (snd (run tr m)) =
          foldl js_add (clsValue m) (concat (map (\<lambda>x. unflagged_values (snd x)) tr)))
   \<and> (list_all (\<lambda>x. nonneg_shifts (snd x)) (tr1 @ tr2) \<longrightarrow>
        number_le (clsValue (snd (run tr1 (new_FrontendMonitor url))))
          (clsValue (snd (run (tr1 @ tr2) (new_FrontendMonitor url)))))
   \<and> (valid_total (clsValue m) \<and> list_all (\<lambda>x. nonneg_shifts (snd x)) (tr1 @ tr2) \<longrightarrow>
        number_le (clsValue (snd (run tr1 m))) (clsValue (snd (run (tr1 @ tr2) m))))
   \<and> reports_of (fst (cls_callback h (new_FrontendMonitor url) scenario_shifts)) =
        [PerformanceReport ((getBasicTiming (timing h))\<lparr>cls := Some (binary64 (8 / 100))\<rparr>)]
   \<and> add_shifts [\<lparr>value = binary64 (1 / 10), hadRecentInput = False\<rparr>,
                    \<lparr>value = binary64 (2 / 10), hadRecentInput = False\<rparr>] (Finite 0)
       = Finite (5404319552844596 / 2 ^ 54)"
proof -
  have a: "add_shifts es acc =
      foldl js_add acc (map value (filter (\<lambda>e. \<not> hadRecentInput e) es))"
    by (rule add_shifts_foldl)
  have b: "add_shifts es acc = add_shifts (filter (\<lambda>e. \<not> hadRecentInput e) es) acc"
    by (simp add: add_shifts_foldl)
  have c: "valid_total acc \<and> list_all (\<lambda>e. number_le (Finite 0) (value e)) es \<longrightarrow>
        number_le acc (add_shifts es acc)"
    using add_shifts_mono [of acc es] by simp
  have d: "isMonitoring m \<and> count_list (observers m) layout_shift = 1 \<longrightarrow>
        clsValue (snd (run tr m)) =
          foldl js_add (clsValue m) (concat (map (\<lambda>x. unflagged_values (snd x)) tr))"
    by (simp add: run_clsValue)
  have f: "number_le (clsValue (snd (run tr1 m'))) (clsValue (snd (run (tr1 @ tr2) m')))"
    if v: "valid_total (clsValue m')" and n: "list_all (\<lambda>x. nonneg_shifts (snd x)) (tr1 @ tr2)"
    for m'
  proof -
    have "valid_total (clsValue (snd (run tr1 m')))"
      using run_mono [of m' tr1] v n by simp
    then show ?thesis
      using run_mono [of "snd (run tr1 m')" tr2] n by (simp add: run_append_snd)
  qed
  have e: "list_all (\<lambda>x. nonneg_shifts (snd x)) (tr1 @ tr2) \<longrightarrow>
        number_le (clsValue (snd (run tr1 (new_FrontendMonitor url))))
          (clsValue (snd (run (tr1 @ tr2) (new_FrontendMonitor url))))"
    using f [of "new_FrontendMonitor url"]
    by (simp add: new_FrontendMonitor_def binary64_def)
  have g: "reports_of (fst (cls_callback h (new_FrontendMonitor url) scenario_shifts)) =
        [PerformanceReport ((getBasicTiming (timing h))\<lparr>cls := Some (binary64 (8 / 100))\<rparr>)]"
    by (simp add: cls_callback_def new_FrontendMonitor_def Let_def add_shifts_scenario)
  from a b c d e f [of m] g add_shifts_tenths show ?thesis by blast
qed

theorem cls_accumulator_monotone_exact_witness:
  "valid_total (Finite 0)
   \<and> list_all (\<lambda>e. number_le (Finite 0) (value e))
        [\<lparr>value = binary64 (1 / 10), hadRecentInput = False\<rparr>,
         \<lparr>value = binary64 (2 / 10), hadRecentInput = False\<rparr>]
   \<and> foldl js_add (Finite 0) [binary64 (1 / 10), binary64 (2 / 10)]
      = Finite (5404319552844596 / 2 ^ 54)
   \<and> binary64 (3 / 10) = Finite (5404319552844595 / 2 ^ 54)
   \<and> number_le (Finite 0) (Finite (5404319552844596 / 2 ^ 54))
   \<and> isMonitoring (snd (init modern_host (new_FrontendMonitor ''https://c.example/r'')))
   \<and> count_list
        (observers (snd (init modern_host (new_FrontendMonitor ''https://c.example/r''))))
        layout_shift = 1
   \<and> list_all (\<lambda>x. nonneg_shifts (snd x))
        ([(modern_host, Init), (modern_host, LayoutShiftDelivery scenario_shifts)]
         @ [(modern_host, LayoutShiftDelivery
               [\<lparr>value = binary64 (1 / 10), hadRecentInput = False\<rparr>])])
   \<and> foldl js_add (Finite 0) [binary64 (5 / 100), binary64 (3 / 100)] = binary64 (8 / 100)
   \<and> binary64 (8 / 100) = Finite (5764607523034235 / 2 ^ 56)
   \<and> clsValue (snd (run [(modern_host, LayoutShiftDelivery scenario_shifts)]
        (snd (init modern_host (new_FrontendMonitor ''https://c.example/r''))))) =
      binary64 (8 / 100)
   \<and> number_le
        (clsValue (snd (run [(modern_host, Init), (modern_host, LayoutShiftDelivery scenario_shifts)]
           (new_FrontendMonitor ''https://c.example/r''))))
        (clsValue (snd (run ([(modern_host, Init), (modern_host, LayoutShiftDelivery scenario_shifts)]
             @ [(modern_host, LayoutShiftDelivery
                   [\<lparr>value = binary64 (1 / 10), hadRecentInput = False\<rparr>])])
           (new_FrontendMonitor ''https://c.example/r''))))
   \<and> reports_of (fst (run [(modern_host, Init), (modern_host, LayoutShiftDelivery scenario_shifts)]
        (new_FrontendMonitor ''https://c.example/r''))) =
        [PerformanceReport ((getBasicTiming scenario_timing)\<lparr>cls := Some (binary64 (8 / 100))\<rparr>)]"
proof -
  let ?tenths = "[\<lparr>value = binary64 (1 / 10), hadRecentInput = False\<rparr>,
                  \<lparr>value = binary64 (2 / 10), hadRecentInput = False\<rparr>]"
  let ?m0 = "snd (init modern_host (new_FrontendMonitor ''https://c.example/r''))"
  let ?tr1 = "[(modern_host, Init), (modern_host, LayoutShiftDelivery scenario_shifts)]"
  let ?tr2 = "[(modern_host, LayoutShiftDelivery
                 [\<lparr>value = binary64 (1 / 10), hadRecentInput = False\<rparr>])]"
  note t = cls_accumulator_monotone_exact [of ?tenths "Finite 0" ?m0
      "[(modern_host, LayoutShiftDelivery scenario_shifts)]" ?tr1 ?tr2
      "''https://c.example/r''" modern_host]
  have v: "valid_total (Finite 0)"
    by (simp add: binary64_zero)
  have n: "list_all (\<lambda>e. number_le (Finite 0) (value e)) ?tenths"
    by (simp add: binary64_nonneg)
  have "add_shifts ?tenths (Finite 0) = foldl js_add (Finite 0) [binary64 (1 / 10), binary64 (2 / 10)]"
    using t by simp
  then have s: "foldl js_add (Finite 0) [binary64 (1 / 10), binary64 (2 / 10)]
      = Finite (5404319552844596 / 2 ^ 54)"
    by (simp only: add_shifts_tenths)
  have "number_le (Finite 0) (add_shifts ?tenths (Finite 0))"
    using t v n by blast
  then have g: "number_le (Finite 0) (Finite (5404319552844596 / 2 ^ 54))"
    by (simp only: add_shifts_tenths)
  have i: "isMonitoring ?m0" "count_list (observers ?m0) layout_shift = 1"
    by (simp_all add: init_modern_host)
  have l: "list_all (\<lambda>x. nonneg_shifts (snd x)) (?tr1 @ ?tr2)"
    by (simp add: nonneg_scenario_shifts binary64_nonneg)
  have u: "unflagged_values (LayoutShiftDelivery scenario_shifts)
      = [binary64 (5 / 100), binary64 (3 / 100)]"
    by (simp only: scenario_shifts_def unflagged_values.simps filter.simps list.map
        LayoutShiftEntry.select_convs simp_thms if_True if_False)
  have c0: "clsValue ?m0 = Finite 0"
    by (simp add: init_modern_host)
  have "clsValue (snd (run [(modern_host, LayoutShiftDelivery scenario_shifts)] ?m0)) =
      foldl js_add (clsValue ?m0)
        (concat (map (\<lambda>x. unflagged_values (snd x))
           [(modern_host, LayoutShiftDelivery scenario_shifts)]))"
    using t i by blast
  then have r': "clsValue (snd (run [(modern_host, LayoutShiftDelivery scenario_shifts)] ?m0)) =
      foldl js_add (Finite 0) [binary64 (5 / 100), binary64 (3 / 100)]"
    by (simp only: c0 u list.map concat.simps snd_conv append_Nil2)
  have k: "foldl js_add (Finite 0) [binary64 (5 / 100), binary64 (3 / 100)] = binary64 (8 / 100)"
    by (simp only: foldl.simps js_add_literals)
  have r: "clsValue (snd (run [(modern_host, LayoutShiftDelivery scenario_shifts)] ?m0)) =
      binary64 (8 / 100)"
    using r' k by (rule trans)
  have m: "number_le (clsValue (snd (run ?tr1 (new_FrontendMonitor ''https://c.example/r''))))
      (clsValue (snd (run (?tr1 @ ?tr2) (new_FrontendMonitor ''https://c.example/r''))))"
    using t l by blast
  have p: "reports_of (fst (run ?tr1 (new_FrontendMonitor ''https://c.example/r''))) =
      [PerformanceReport ((getBasicTiming scenario_timing)\<lparr>cls := Some (binary64 (8 / 100))\<rparr>)]"
    by (simp add: init_modern_host cls_callback_def Let_def modern_host_fields
        add_shifts_scenario)
  from v n s binary64_literals(7) g i l k binary64_literals(3) r m p show ?thesis
    by blast
qed

subsection \<open>When the basic timing is computed\<close>

text \<open>
  C3, as stated: the basic timing snapshot is computed once only, and only after the load
  signal. It fails: a paint delivery before any load event computes it, and a page that
  loads and then receives a layout-shift delivery computes it twice.
\<close>

theorem basic_timing_before_load_counterexample:
  "basic_timing_calls (fst (run [(loading_host, Init),
        (loading_host, PaintDelivery [\<lparr>name = ''first-paint'', startTime = 980\<rparr>])]
        (new_FrontendMonitor ''https://c.example/r''))) = 1
   \<and> basic_timing_calls (fst (run [(loading_host, Init), (modern_host, Load),
        (modern_host, LayoutShiftDelivery scenario_shifts)]
        (new_FrontendMonitor ''https://c.example/r''))) = 2"
  by (simp add: model_defs example_defs)

text \<open>
  C3, amended: in every run the snapshot is computed exactly once for each performance
  report that is sent. The load listener computes it once for each load event (once
  \<^verbatim>\<open>init\<close> has returned, whatever happened in between), and its report carries that
  snapshot alone; every report of a paint, largest-contentful-paint or layout-shift
  delivery computes it afresh at the time of the delivery.
\<close>

theorem basic_timing_per_report:
  "basic_timing_calls (fst (run tr m)) =
     length (filter is_performance (reports_of (fst (run tr m))))
   \<and> basic_timing_calls (fst (step h Load m)) = count_list (listeners m) LoadListener
   \<and> (init h0 (new_FrontendMonitor url) = (Returned, m0) \<longrightarrow>
        basic_timing_calls (fst (step h Load (snd (run tr m0)))) = 1
        \<and> reports_of (fst (step h Load (snd (run tr m0)))) =
            [PerformanceReport (getBasicTiming (timing h))])"
proof -
  have a: "basic_timing_calls (fst (run tr m)) =
     length (filter is_performance (reports_of (fst (run tr m))))"
    using balanced_run [of tr m] by (simp add: balanced_def)
  have b: "basic_timing_calls (fst (step h Load m)) = count_list (listeners m) LoadListener"
    by (simp add: dispatch_Load_calls)
  have c: "basic_timing_calls (fst (step h Load (snd (run tr m0)))) = 1
        \<and> reports_of (fst (step h Load (snd (run tr m0)))) =
            [PerformanceReport (getBasicTiming (timing h))]"
    if i: "init h0 (new_FrontendMonitor url) = (Returned, m0)"
  proof -
    have "listeners (snd (run tr m0)) =
        [JsErrorListener, ResourceErrorListener, UnhandledRejectionListener, LoadListener]"
      using init_new_returned(1,2) [OF i] run_fields [of m0 tr] by simp
    then show ?thesis by (simp add: reportPerformance_def)
  qed
  from a b c show ?thesis by blast
qed

theorem basic_timing_per_report_witness:
  "fst (init modern_host (new_FrontendMonitor ''https://c.example/r'')) = Returned
   \<and> basic_timing_calls (fst (run [(loading_host, Init),
        (loading_host, PaintDelivery [\<lparr>name = ''first-paint'', startTime = 980\<rparr>]),
        (modern_host, Load)] (new_FrontendMonitor ''https://c.example/r''))) = 2
   \<and> basic_timing_calls (fst (step modern_host Load
        (snd (run [(loading_host, PaintDelivery [\<lparr>name = ''first-paint'', startTime = 980\<rparr>])]
           (snd (init modern_host (new_FrontendMonitor ''https://c.example/r''))))))) = 1"
  using basic_timing_per_report [of
      "[(loading_host, Init),
        (loading_host, PaintDelivery [\<lparr>name = ''first-paint'', startTime = 980\<rparr>]),
        (modern_host, Load)]" "new_FrontendMonitor ''https://c.example/r''" modern_host
      modern_host "''https://c.example/r''"
      "snd (init modern_host (new_FrontendMonitor ''https://c.example/r''))"]
  by (simp add: model_defs example_defs)

subsection \<open>The largest-contentful-paint callback\<close>

text \<open>
  C4. For every delivery with at least one entry (a batch \<open>es @ [e]\<close>), the callback sends
  one report whose \<^verbatim>\<open>lcp\<close> is the rounded render time of the last entry \<open>e\<close> when that
  is not 0, and its rounded load time otherwise; of a batch of two entries only the second
  is used. A monitor with the three observers runs this callback, once, on each delivery of
  the largest-contentful-paint stream and is left as it was; so does, at any later point of
  the run, a monitor whose \<^verbatim>\<open>init\<close> has returned on a host that registered the observer
  of this stream, and the delivery sends exactly that report.
\<close>

theorem lcp_callback_last_entry:
  "reports_of (lcp_callback h m (es @ [e])) =
     [PerformanceReport
        ((getBasicTiming (timing h))
           \<lparr>lcp := Some (Math_round (if renderTime e \<noteq> 0 then renderTime e else loadTime e))\<rparr>)]
   \<and> reports_of (lcp_callback h m [e1, e2]) =
     [PerformanceReport
        ((getBasicTiming (timing h))
           \<lparr>lcp := Some (Math_round (if renderTime e2 \<noteq> 0 then renderTime e2 else loadTime e2))\<rparr>)]
   \<and> (observers m = [paint, largest_contentful_paint, layout_shift] \<longrightarrow>
        step h (LargestContentfulPaintDelivery es) m = (lcp_callback h m es, m))
   \<and> (init h0 (new_FrontendMonitor url) = (Returned, m0) \<and> hasPerformanceObserver h0
        \<and> observe h0 largest_contentful_paint = Registered \<longrightarrow>
        reports_of (fst (step h (LargestContentfulPaintDelivery (es @ [e])) (snd (run tr m0)))) =
          [PerformanceReport
             ((getBasicTiming (timing h))
                \<lparr>lcp := Some (Math_round (if renderTime e \<noteq> 0 then renderTime e
                                            else loadTime e))\<rparr>)]
        \<and> snd (step h (LargestContentfulPaintDelivery (es @ [e])) (snd (run tr m0))) =
            snd (run tr m0))"
proof -
  let ?report = "[PerformanceReport
        ((getBasicTiming (timing h))
           \<lparr>lcp := Some (Math_round (if renderTime e \<noteq> 0 then renderTime e else loadTime e))\<rparr>)]"
  have a: "reports_of (lcp_callback h m' (es @ [e])) = ?report" for m'
    by (simp add: lcp_callback_def Let_def)
  have b: "reports_of (lcp_callback h m [e1, e2]) =
     [PerformanceReport
        ((getBasicTiming (timing h))
           \<lparr>lcp := Some (Math_round (if renderTime e2 \<noteq> 0 then renderTime e2 else loadTime e2))\<rparr>)]"
    by (simp add: lcp_callback_def Let_def)
  have c: "observers m = [paint, largest_contentful_paint, layout_shift] \<longrightarrow>
        step h (LargestContentfulPaintDelivery es) m = (lcp_callback h m es, m)"
    by (simp add: deliver_lcp)
  have d: "reports_of (fst (step h (LargestContentfulPaintDelivery (es @ [e])) (snd (run tr m0))))
        = ?report
      \<and> snd (step h (LargestContentfulPaintDelivery (es @ [e])) (snd (run tr m0))) =
          snd (run tr m0)"
    if i: "init h0 (new_FrontendMonitor url) = (Returned, m0)"
      and p: "hasPerformanceObserver h0"
      and r: "observe h0 largest_contentful_paint = Registered"
  proof -
    have "observers (snd (run tr m0)) = observers m0"
      using init_new_returned(2) [OF i] run_fields [of m0 tr] by simp
    then have o: "observers (snd (run tr m0)) =
        filter (\<lambda>k. observe h0 k = Registered) [paint, largest_contentful_paint, layout_shift]"
      using init_returned_observers [OF i p] by simp
    show ?thesis
      using r a [of "snd (run tr m0)"] by (simp add: o deliver_lcp)
  qed
  from a [of m] b c d show ?thesis by blast
qed

theorem lcp_callback_last_entry_witness:
  "reports_of (lcp_callback modern_host (new_FrontendMonitor ''https://c.example/r'')
      [\<lparr>renderTime = 1200, loadTime = 1100\<rparr>, \<lparr>renderTime = 1849.6, loadTime = 1700\<rparr>]) =
     [PerformanceReport ((getBasicTiming scenario_timing)\<lparr>lcp := Some 1850\<rparr>)]
   \<and> reports_of (lcp_callback modern_host (new_FrontendMonitor ''https://c.example/r'')
      ([\<lparr>renderTime = 1200, loadTime = 1100\<rparr>] @ [\<lparr>renderTime = 0, loadTime = 1700.2\<rparr>])) =
     [PerformanceReport ((getBasicTiming scenario_timing)\<lparr>lcp := Some 1700\<rparr>)]
   \<and> init modern_host (new_FrontendMonitor ''https://c.example/r'') =
       (Returned, snd (init modern_host (new_FrontendMonitor ''https://c.example/r'')))
   \<and> hasPerformanceObserver modern_host
   \<and> observe modern_host largest_contentful_paint = Registered
   \<and> observers (snd (init modern_host (new_FrontendMonitor ''https://c.example/r''))) =
       [paint, largest_contentful_paint, layout_shift]
   \<and> reports_of (fst (step modern_host
        (LargestContentfulPaintDelivery
           ([\<lparr>renderTime = 1200, loadTime = 1100\<rparr>] @ [\<lparr>renderTime = 0, loadTime = 1700.2\<rparr>]))
        (snd (run [(modern_host, Load)]
           (snd (init modern_host (new_FrontendMonitor ''https://c.example/r''))))))) =
     [PerformanceReport ((getBasicTiming scenario_timing)\<lparr>lcp := Some 1700\<rparr>)]
   \<and> reports_of (fst (run [(modern_host, Init),
        (modern_host, LargestContentfulPaintDelivery
           [\<lparr>renderTime = 1200, loadTime = 1100\<rparr>, \<lparr>renderTime = 1849.6, loadTime = 1700\<rparr>])]
        (new_FrontendMonitor ''https://c.example/r''))) =
     [PerformanceReport ((getBasicTiming scenario_timing)\<lparr>lcp := Some 1850\<rparr>)]"
  using lcp_callback_last_entry [of modern_host
      "snd (init modern_host (new_FrontendMonitor ''https://c.example/r''))"
      "[\<lparr>renderTime = 1200, loadTime = 1100\<rparr>]" "\<lparr>renderTime = 0, loadTime = 1700.2\<rparr>"
      "\<lparr>renderTime = 1200, loadTime = 1100\<rparr>" "\<lparr>renderTime = 1849.6, loadTime = 1700\<rparr>"
      modern_host "''https://c.example/r''"
      "snd (init modern_host (new_FrontendMonitor ''https://c.example/r''))"
      "[(modern_host, Load)]"]
  by (simp add: Math_round_def model_defs example_defs)

subsection \<open>Error capture\<close>

text \<open>
  C5. Once \<^verbatim>\<open>init\<close> has returned, at any later point of the run: an event on the error
  channel whose target is a LINK, SCRIPT or IMG element gives exactly two error records,
  of type \<^verbatim>\<open>js\<close> then \<^verbatim>\<open>resource\<close>; any other event on the error channel gives exactly
  one, of type \<^verbatim>\<open>js\<close>; an unhandled rejection gives exactly one, of type \<^verbatim>\<open>promise\<close>.
\<close>

theorem error_event_records:
  assumes "init h0 (new_FrontendMonitor url) = (Returned, m0)"
  shows "(is_resource_target (ev_target ev) \<longrightarrow>
           map error_type_of (reports_of (fst (step h (Error ev) (snd (run tr m0)))))
             = [Some js, Some resource])
         \<and> (\<not> is_resource_target (ev_target ev) \<longrightarrow>
           map error_type_of (reports_of (fst (step h (Error ev) (snd (run tr m0)))))
             = [Some js])
         \<and> map error_type_of
             (reports_of (fst (step h (UnhandledRejection rej) (snd (run tr m0)))))
             = [Some promise]"
proof -
  have l: "listeners (snd (run tr m0)) =
      [JsErrorListener, ResourceErrorListener, UnhandledRejectionListener, LoadListener]"
    using init_new_returned(1,2) [OF assms] run_fields [of m0 tr] by simp
  show ?thesis
    by (simp add: l js_listener_types resource_listener_types rejection_listener_types)
qed

theorem error_event_records_witness:
  "fst (init modern_host (new_FrontendMonitor ''https://c.example/r'')) = Returned
   \<and> is_resource_target (ev_target img_failure)
   \<and> reports_of (fst (step modern_host (Error img_failure)
        (snd (run [] (snd (init modern_host (new_FrontendMonitor ''https://c.example/r'')))))))
      = [ErrorReport \<lparr>message = None, filename = ''https://example.com/page'', lineno = 0,
           colno = 0, stack = None, type = js, timestamp = 1686147200000\<rparr>,
         ErrorReport \<lparr>message = Some ''Resource load error: https://cdn.x/a.png'',
           filename = ''https://cdn.x/a.png'', lineno = 0, colno = 0, stack = None,
           type = resource, timestamp = 1686147200000\<rparr>]
   \<and> \<not> is_resource_target (ev_target script_error)
   \<and> map error_type_of (reports_of (fst (step modern_host (Error script_error)
        (snd (run [] (snd (init modern_host (new_FrontendMonitor ''https://c.example/r''))))))))
      = [Some js]
   \<and> map error_type_of (reports_of (fst (step modern_host (UnhandledRejection rejection)
        (snd (run [] (snd (init modern_host (new_FrontendMonitor ''https://c.example/r''))))))))
      = [Some promise]"
  using error_event_records [of modern_host "''https://c.example/r''"
      "snd (init modern_host (new_FrontendMonitor ''https://c.example/r''))"
      img_failure modern_host "[]" rejection]
    error_event_records [of modern_host "''https://c.example/r''"
      "snd (init modern_host (new_FrontendMonitor ''https://c.example/r''))"
      script_error modern_host "[]" rejection]
  by (simp add: model_defs example_defs)

subsection \<open>The observation capability\<close>

text \<open>
  C6. The claim: a subscription whose capability is missing on the host is skipped
  silently, and the two others continue. The code has one check, for
  \<^verbatim>\<open>PerformanceObserver\<close> itself, and calls \<^verbatim>\<open>observe\<close> three times with no handler
  around any call. On a host that has \<^verbatim>\<open>PerformanceObserver\<close> and whose \<^verbatim>\<open>observe\<close>
  throws on the option \<^verbatim>\<open>type\<close>, \<^verbatim>\<open>init\<close> throws at the first subscription: no observer,
  no error listener and no load listener is installed, and the script error and the load
  event that follow are not reported. Were the paint stream alone refused, the two other
  streams, which the host would register, are never requested.
\<close>

theorem observe_throw_aborts_init:
  "hasPerformanceObserver entryTypes_only_host
   \<and> init entryTypes_only_host (new_FrontendMonitor ''https://c.example/r'') =
        (Threw,
         \<lparr>reportUrl = ''https://c.example/r'', isMonitoring = True, clsValue = Finite 0,
          observers = [], listeners = []\<rparr>)
   \<and> run [(entryTypes_only_host, Init), (entryTypes_only_host, Error script_error),
           (entryTypes_only_host, Load)] (new_FrontendMonitor ''https://c.example/r'') =
        ([],
         \<lparr>reportUrl = ''https://c.example/r'', isMonitoring = True, clsValue = Finite 0,
          observers = [], listeners = []\<rparr>)
   \<and> observe paint_refusing_host largest_contentful_paint = Registered
   \<and> observe paint_refusing_host layout_shift = Registered
   \<and> init paint_refusing_host (new_FrontendMonitor ''https://c.example/r'') =
        (Threw,
         \<lparr>reportUrl = ''https://c.example/r'', isMonitoring = True, clsValue = Finite 0,
          observers = [], listeners = []\<rparr>)"
  by (simp add: model_defs example_defs)

text \<open>
  On the other hosts the code does what the claim says. Without \<^verbatim>\<open>PerformanceObserver\<close>
  all three subscriptions are skipped, \<^verbatim>\<open>init\<close> returns and the error listeners and the
  load listener are installed. With it, on a host whose \<^verbatim>\<open>observe\<close> does not throw, the
  observers installed are those of the streams the host registers, in the order paint,
  largest contentful paint, layout shift: a stream the host ignores is the only one missing.
\<close>

lemma single_observer_guard:
  "(\<not> hasPerformanceObserver h \<longrightarrow>
      init h (new_FrontendMonitor url) =
        (Returned,
         \<lparr>reportUrl = url, isMonitoring = True, clsValue = Finite 0, observers = [],
          listeners = installed_listeners\<rparr>))
   \<and> (hasPerformanceObserver h \<and> (\<forall>k. observe h k \<noteq> ThrowsTypeError) \<longrightarrow>
      init h (new_FrontendMonitor url) =
        (Returned,
         \<lparr>reportUrl = url, isMonitoring = True, clsValue = Finite 0,
          observers =
            filter (\<lambda>k. observe h k = Registered)
              [paint, largest_contentful_paint, layout_shift],
          listeners = installed_listeners\<rparr>))"
proof -
  have a: "init h (new_FrontendMonitor url) =
        (Returned,
         \<lparr>reportUrl = url, isMonitoring = True, clsValue = Finite 0, observers = [],
          listeners = installed_listeners\<rparr>)"
    if "\<not> hasPerformanceObserver h"
    using that
    by (simp add: init_def setupPerformanceObserver_def captureErrors_def
        new_FrontendMonitor_def installed_listeners_def Let_def)
  have b: "init h (new_FrontendMonitor url) =
        (Returned,
         \<lparr>reportUrl = url, isMonitoring = True, clsValue = Finite 0,
          observers =
            filter (\<lambda>k. observe h k = Registered)
              [paint, largest_contentful_paint, layout_shift],
          listeners = installed_listeners\<rparr>)"
    if p: "hasPerformanceObserver h" and n: "\<forall>k. observe h k \<noteq> ThrowsTypeError"
  proof -
    have o: "observe h k = Registered \<or> observe h k = Ignored" for k
      using n by (cases "observe h k") simp_all
    show ?thesis
      using p o [of paint] o [of largest_contentful_paint] o [of layout_shift]
      by (auto simp add: init_def setupPerformanceObserver_def new_observer_def
          captureErrors_def new_FrontendMonitor_def installed_listeners_def Let_def)
  qed
  from a b show ?thesis by blast
qed

lemma single_observer_guard_witness:
  "\<not> hasPerformanceObserver no_observer_host
   \<and> init no_observer_host (new_FrontendMonitor ''https://c.example/r'') =
        (Returned,
         \<lparr>reportUrl = ''https://c.example/r'', isMonitoring = True, clsValue = Finite 0,
          observers = [], listeners = installed_listeners\<rparr>)
   \<and> hasPerformanceObserver no_layout_shift_host
   \<and> observe no_layout_shift_host paint = Registered
   \<and> observe no_layout_shift_host largest_contentful_paint = Registered
   \<and> observe no_layout_shift_host layout_shift = Ignored
   \<and> init no_layout_shift_host (new_FrontendMonitor ''https://c.example/r'') =
        (Returned,
         \<lparr>reportUrl = ''https://c.example/r'', isMonitoring = True, clsValue = Finite 0,
          observers = [paint, largest_contentful_paint], listeners = installed_listeners\<rparr>)"
  using single_observer_guard [of no_observer_host "''https://c.example/r''"]
    single_observer_guard [of no_layout_shift_host "''https://c.example/r''"]
  by (simp add: example_defs)

subsection \<open>Defaults of an error record\<close>

text \<open>
  C7, as stated: in every kind of record an unknown source location becomes the page URL.
  It fails for the resource record: an image with neither \<^verbatim>\<open>src\<close> nor \<^verbatim>\<open>href\<close> gets
  the empty string as its filename, while the \<^verbatim>\<open>js\<close> record of the same event gets the
  page URL.
\<close>

theorem resource_filename_counterexample:
  "is_resource_target (ev_target srcset_img_failure)
   \<and> map filename (errors_of (reports_of (fst (step modern_host (Error srcset_img_failure)
        (snd (init modern_host (new_FrontendMonitor ''https://c.example/r'')))))))
      = [''https://example.com/page'', []]
   \<and> map type (errors_of (reports_of (fst (step modern_host (Error srcset_img_failure)
        (snd (init modern_host (new_FrontendMonitor ''https://c.example/r'')))))))
      = [js, resource]
   \<and> location_href modern_host = ''https://example.com/page''"
  by (simp add: model_defs example_defs)

text \<open>
  C7, amended: the script listener defaults an unknown filename to the page URL and an
  unknown line or column to 0; the rejection listener always writes the page URL and 0, 0;
  the resource listener writes the element's \<^verbatim>\<open>src\<close>, else its \<^verbatim>\<open>href\<close>, else the empty
  string, and 0, 0.
\<close>

theorem error_record_defaults:
  "(\<not> truthy_string (ev_filename ev) \<longrightarrow>
      map filename (errors_of (reports_of (js_error_listener h m ev))) = [location_href h])
   \<and> (ev_lineno ev = None \<longrightarrow>
      map lineno (errors_of (reports_of (js_error_listener h m ev))) = [0])
   \<and> (ev_colno ev = None \<longrightarrow>
      map colno (errors_of (reports_of (js_error_listener h m ev))) = [0])
   \<and> map filename (errors_of (reports_of (rejection_listener h m rej))) = [location_href h]
   \<and> map lineno (errors_of (reports_of (rejection_listener h m rej))) = [0]
   \<and> map colno (errors_of (reports_of (rejection_listener h m rej))) = [0]
   \<and> (ev_target ev = ElementTarget el \<and> is_resource_target (ElementTarget el) \<longrightarrow>
      map filename (errors_of (reports_of (resource_error_listener h m ev))) =
        [if truthy_string (src el) then the (src el)
         else if truthy_string (href el) then the (href el) else []]
      \<and> map lineno (errors_of (reports_of (resource_error_listener h m ev))) = [0]
      \<and> map colno (errors_of (reports_of (resource_error_listener h m ev))) = [0])"
  by (auto simp add: js_error_listener_def rejection_listener_def resource_error_listener_def
      is_resource_target_def or_default_def or_string_def or_number_def truthy_string_def
      split: option.splits)

theorem error_record_defaults_witness:
  "\<not> truthy_string (ev_filename img_failure)
   \<and> ev_lineno img_failure = None \<and> ev_colno img_failure = None
   \<and> errors_of (reports_of (js_error_listener modern_host
        (new_FrontendMonitor ''https://c.example/r'') img_failure)) =
      [\<lparr>message = None, filename = ''https://example.com/page'', lineno = 0, colno = 0,
        stack = None, type = js, timestamp = 1686147200000\<rparr>]
   \<and> errors_of (reports_of (rejection_listener modern_host
        (new_FrontendMonitor ''https://c.example/r'') rejection)) =
      [\<lparr>message = Some ''timeout'', filename = ''https://example.com/page'', lineno = 0,
        colno = 0, stack = None, type = promise, timestamp = 1686147200000\<rparr>]
   \<and> is_resource_target (ev_target img_failure)
   \<and> errors_of (reports_of (resource_error_listener modern_host
        (new_FrontendMonitor ''https://c.example/r'') img_failure)) =
      [\<lparr>message = Some ''Resource load error: https://cdn.x/a.png'',
        filename = ''https://cdn.x/a.png'', lineno = 0, colno = 0, stack = None,
        type = resource, timestamp = 1686147200000\<rparr>]"
  using error_record_defaults [of img_failure modern_host
      "new_FrontendMonitor ''https://c.example/r''" rejection
      "\<lparr>tagName = ''IMG'', src = Some ''https://cdn.x/a.png'', href = None\<rparr>"]
  by (simp add: model_defs example_defs)

subsection \<open>The layout-shift callback always reports\<close>

text \<open>
  C8. For every batch, the layout-shift callback sends exactly one report, and its
  \<^verbatim>\<open>cls\<close> is the accumulator after the batch; when every entry is flagged (the empty batch
  included) that is the accumulator as it was before. A monitor with the three observers
  runs this callback once for each layout-shift delivery.
\<close>

theorem cls_callback_always_reports:
  "reports_of (fst (cls_callback h m es)) =
     [PerformanceReport
        ((getBasicTiming (timing h))\<lparr>cls := Some (clsValue (snd (cls_callback h m es)))\<rparr>)]
   \<and> clsValue (snd (cls_callback h m es)) = add_shifts es (clsValue m)
   \<and> (list_all hadRecentInput es \<longrightarrow>
        reports_of (fst (cls_callback h m es)) =
          [PerformanceReport ((getBasicTiming (timing h))\<lparr>cls := Some (clsValue m)\<rparr>)])
   \<and> (observers m = [paint, largest_contentful_paint, layout_shift] \<longrightarrow>
        step h (LayoutShiftDelivery es) m = cls_callback h m es)"
  by (simp add: cls_callback_def Let_def add_shifts_flagged)

theorem cls_callback_always_reports_witness:
  "list_all hadRecentInput []
   \<and> reports_of (fst (cls_callback modern_host (new_FrontendMonitor ''https://c.example/r'') [])) =
       [PerformanceReport ((getBasicTiming scenario_timing)\<lparr>cls := Some (Finite 0)\<rparr>)]
   \<and> list_all hadRecentInput [\<lparr>value = binary64 (1 / 10), hadRecentInput = True\<rparr>]
   \<and> reports_of (fst (step modern_host
         (LayoutShiftDelivery [\<lparr>value = binary64 (1 / 10), hadRecentInput = True\<rparr>])
         (snd (init modern_host (new_FrontendMonitor ''https://c.example/r''))))) =
       [PerformanceReport ((getBasicTiming scenario_timing)\<lparr>cls := Some (Finite 0)\<rparr>)]"
  using cls_callback_always_reports [of modern_host
      "new_FrontendMonitor ''https://c.example/r''" "[]"]
    cls_callback_always_reports [of modern_host
      "snd (init modern_host (new_FrontendMonitor ''https://c.example/r''))"
      "[\<lparr>value = binary64 (1 / 10), hadRecentInput = True\<rparr>]"]
  by (simp add: model_defs example_defs)

subsection \<open>init is idempotent\<close>

text \<open>
  C9. The claim: the first call of \<^verbatim>\<open>init\<close> installs the observation subscriptions, the
  error listeners and the load handler exactly once, and every later call is a no-op. The
  code sets \<^verbatim>\<open>isMonitoring\<close> before it installs anything and has no handler around the
  subscriptions. On a host whose \<^verbatim>\<open>observe\<close> throws, the first call throws with
  \<^verbatim>\<open>isMonitoring\<close> set and nothing installed; every later call, on this host or on one
  that would register every observer, returns at the guard, so nothing is installed by any
  call and no event of the page is reported.
\<close>

theorem init_throw_never_installs:
  "\<not> isMonitoring (new_FrontendMonitor ''https://c.example/r'')
   \<and> init entryTypes_only_host (new_FrontendMonitor ''https://c.example/r'') =
        (Threw,
         \<lparr>reportUrl = ''https://c.example/r'', isMonitoring = True, clsValue = Finite 0,
          observers = [], listeners = []\<rparr>)
   \<and> init entryTypes_only_host
        (snd (init entryTypes_only_host (new_FrontendMonitor ''https://c.example/r''))) =
        (Returned,
         \<lparr>reportUrl = ''https://c.example/r'', isMonitoring = True, clsValue = Finite 0,
          observers = [], listeners = []\<rparr>)
   \<and> init modern_host
        (snd (init entryTypes_only_host (new_FrontendMonitor ''https://c.example/r''))) =
        (Returned,
         \<lparr>reportUrl = ''https://c.example/r'', isMonitoring = True, clsValue = Finite 0,
          observers = [], listeners = []\<rparr>)
   \<and> run [(entryTypes_only_host, Init), (entryTypes_only_host, Init), (modern_host, Init),
           (modern_host, Error script_error), (modern_host, UnhandledRejection rejection),
           (modern_host, PaintDelivery [\<lparr>name = ''first-paint'', startTime = 980\<rparr>]),
           (modern_host, Load)]
        (new_FrontendMonitor ''https://c.example/r'') =
        ([],
         \<lparr>reportUrl = ''https://c.example/r'', isMonitoring = True, clsValue = Finite 0,
          observers = [], listeners = []\<rparr>)"
  by (simp add: model_defs example_defs)

text \<open>
  What holds of \<^verbatim>\<open>init\<close> on every host: a call on a monitor that is monitoring returns
  the monitor as it is; after any call the monitor is monitoring, so a second call (and an
  \<^verbatim>\<open>Init\<close> event anywhere later in a run) installs nothing. On a host that registers
  the three observers, the first call on a new monitor installs each observer and each
  listener exactly once.
\<close>

lemma init_idempotent:
  "(isMonitoring m \<longrightarrow> init h m = (Returned, m))
   \<and> isMonitoring (snd (init h m))
   \<and> init h' (snd (init h m)) = (Returned, snd (init h m))
   \<and> step h' Init (snd (step h Init m)) = ([], snd (step h Init m))
   \<and> (isMonitoring m \<longrightarrow>
        observers (snd (run tr m)) = observers m \<and> listeners (snd (run tr m)) = listeners m)
   \<and> (hasPerformanceObserver h \<and> (\<forall>k. observe h k = Registered) \<longrightarrow>
        init h (new_FrontendMonitor url) =
          (Returned,
           \<lparr>reportUrl = url, isMonitoring = True, clsValue = Finite 0,
            observers = [paint, largest_contentful_paint, layout_shift],
            listeners = installed_listeners\<rparr>))"
proof -
  have a: "isMonitoring m \<longrightarrow> init h m = (Returned, m)"
    by (simp add: init_monitoring)
  have b: "isMonitoring (snd (init h m))"
    by simp
  have c: "init h' (snd (init h m)) = (Returned, snd (init h m))"
    by (rule init_monitoring) simp
  have d: "step h' Init (snd (step h Init m)) = ([], snd (step h Init m))"
    using c by simp
  have e: "isMonitoring m \<longrightarrow>
        observers (snd (run tr m)) = observers m \<and> listeners (snd (run tr m)) = listeners m"
    using run_fields [of m tr] by simp
  have f: "hasPerformanceObserver h \<and> (\<forall>k. observe h k = Registered) \<longrightarrow>
        init h (new_FrontendMonitor url) =
          (Returned,
           \<lparr>reportUrl = url, isMonitoring = True, clsValue = Finite 0,
            observers = [paint, largest_contentful_paint, layout_shift],
            listeners = installed_listeners\<rparr>)"
    by (simp add: init_def setupPerformanceObserver_def new_observer_def captureErrors_def
        new_FrontendMonitor_def installed_listeners_def Let_def)
  from a b c d e f show ?thesis by blast
qed

lemma init_idempotent_witness:
  "\<not> isMonitoring (new_FrontendMonitor ''https://c.example/r'')
   \<and> hasPerformanceObserver modern_host \<and> (\<forall>k. observe modern_host k = Registered)
   \<and> isMonitoring (snd (init modern_host (new_FrontendMonitor ''https://c.example/r'')))
   \<and> init modern_host (new_FrontendMonitor ''https://c.example/r'') =
        (Returned,
         \<lparr>reportUrl = ''https://c.example/r'', isMonitoring = True, clsValue = Finite 0,
          observers = [paint, largest_contentful_paint, layout_shift],
          listeners = installed_listeners\<rparr>)
   \<and> init modern_host (snd (init modern_host (new_FrontendMonitor ''https://c.example/r''))) =
        (Returned,
         \<lparr>reportUrl = ''https://c.example/r'', isMonitoring = True, clsValue = Finite 0,
          observers = [paint, largest_contentful_paint, layout_shift],
          listeners = installed_listeners\<rparr>)
   \<and> snd (run [(modern_host, Init), (modern_host, Init), (modern_host, Load), (modern_host, Init)]
        (new_FrontendMonitor ''https://c.example/r'')) =
         \<lparr>reportUrl = ''https://c.example/r'', isMonitoring = True, clsValue = Finite 0,
          observers = [paint, largest_contentful_paint, layout_shift],
          listeners = installed_listeners\<rparr>"
  using init_idempotent [of
      "snd (init modern_host (new_FrontendMonitor ''https://c.example/r''))" modern_host
      modern_host "[(modern_host, Init), (modern_host, Load), (modern_host, Init)]"
      "''https://c.example/r''"]
  by (simp add: model_defs example_defs installed_listeners_def)

subsection \<open>An empty largest-contentful-paint batch\<close>

text \<open>
  C10. On an empty batch the largest-contentful-paint callback does nothing: the delivery
  produces no action and leaves the monitor as it is, whatever observers it has. The
  callback sends a report exactly when the batch is not empty.
\<close>

theorem lcp_empty_batch_silent:
  "lcp_callback h m [] = []
   \<and> step h (LargestContentfulPaintDelivery []) m = ([], m)
   \<and> (reports_of (lcp_callback h m es) = []) = (es = [])"
  by (cases es rule: rev_cases) (simp_all add: deliver_lcp_empty lcp_callback_def Let_def)

theorem lcp_empty_batch_silent_witness:
  "step modern_host (LargestContentfulPaintDelivery [])
      (snd (init modern_host (new_FrontendMonitor ''https://c.example/r''))) =
     ([], snd (init modern_host (new_FrontendMonitor ''https://c.example/r'')))
   \<and> reports_of (lcp_callback modern_host (new_FrontendMonitor ''https://c.example/r'')
        [\<lparr>renderTime = 1200, loadTime = 1100\<rparr>]) \<noteq> []"
  using lcp_empty_batch_silent [of modern_host
      "snd (init modern_host (new_FrontendMonitor ''https://c.example/r''))"
      "[\<lparr>renderTime = 1200, loadTime = 1100\<rparr>]"]
    lcp_empty_batch_silent [of modern_host "new_FrontendMonitor ''https://c.example/r''"
      "[\<lparr>renderTime = 1200, loadTime = 1100\<rparr>]"]
  by simp

end
